theory Spec2Isabelle
  imports Complex_Main "HOL-Library.Word"
begin

section \<open>Data model of the mission feasibility checker\<close>

text \<open>
  The development embeds \<^verbatim>\<open>src/modules/navigator/mission_feasibility_checker.cpp\<close>
  and the DCM constructor of \<^verbatim>\<open>matrix/Euler.hpp\<close>.

  Conventions of the embedding.
  \<^item> A \<^verbatim>\<open>float\<close> of the checker is a value of IEEE 754 binary32 and its arithmetic is the
    arithmetic of that format: every operation rounds its exact result to the nearest
    binary32 value, ties to even, and infinities, NaN and the negative zero behave as the
    standard says. No operation is evaluated in a wider format (\<^verbatim>\<open>FLT_EVAL_METHOD\<close> is 0).
    A \<^verbatim>\<open>double\<close> is only stored, passed on and tested for finiteness.
  \<^item> \<^verbatim>\<open>nav_cmd\<close> is an open integer enumeration in the code. The enumerators that the
    checker names are constructors; every other raw value is \<open>NAV_CMD_OTHER n\<close>.
  \<^item> \<^verbatim>\<open>dm_read\<close> is a function from storage id and index to an optional item;
    \<open>None\<close> is a read whose return value differs from the requested length. The storage
    does not change during one call of the checker, so a second read of an index gives what
    the first one gave.
  \<^item> Every \<^verbatim>\<open>events::send\<close> appends one event to the event list of the checker state.
\<close>

section \<open>Floating-point values and single-precision arithmetic\<close>

text \<open>The values of an IEEE 754 binary format: the finite numbers, the negative zero, the two
  infinities and NaN. \<open>Finite 0\<close> is the positive zero. The type has every real number as a
  finite value, more than a variable of the program can hold; what is proved for all values
  holds for the binary32 and binary64 values among them.\<close>

datatype fpval = Finite real | NegZero | PInf | NInf | NaN

text \<open>\<^verbatim>\<open>float\<close> and \<^verbatim>\<open>double\<close> of the source.\<close>

type_synonym float32 = fpval
type_synonym float64 = fpval

text \<open>The real number that a finite value stands for, the sign bit, and the classification
  of a value.\<close>

fun valof :: "fpval \<Rightarrow> real" where
  "valof (Finite x) = x"
| "valof NegZero = 0"
| "valof PInf = 0"
| "valof NInf = 0"
| "valof NaN = 0"

fun signbit :: "fpval \<Rightarrow> bool" where
  "signbit (Finite x) = (x < 0)"
| "signbit NegZero = True"
| "signbit PInf = False"
| "signbit NInf = True"
| "signbit NaN = False"

fun isfinite :: "fpval \<Rightarrow> bool" where
  "isfinite (Finite x) = True"
| "isfinite NegZero = True"
| "isfinite PInf = False"
| "isfinite NInf = False"
| "isfinite NaN = False"

fun isinf :: "fpval \<Rightarrow> bool" where
  "isinf PInf = True"
| "isinf NInf = True"
| "isinf (Finite x) = False"
| "isinf NegZero = False"
| "isinf NaN = False"

fun iszero :: "fpval \<Rightarrow> bool" where
  "iszero (Finite x) = (x = 0)"
| "iszero NegZero = True"
| "iszero PInf = False"
| "iszero NInf = False"
| "iszero NaN = False"

definition signed_zero :: "bool \<Rightarrow> fpval" where
  "signed_zero negative = (if negative then NegZero else Finite 0)"

definition signed_inf :: "bool \<Rightarrow> fpval" where
  "signed_inf negative = (if negative then NInf else PInf)"

text \<open>Rounding to binary32, to the nearest value and to the even one of two nearest. In units
  of \<open>1 / 2 ^ 149\<close>, the least positive binary32 value, the binary32 values below
  \<open>2 ^ 24\<close> are the integers, and those from \<open>2 ^ (k + 23)\<close> to \<open>2 ^ (k + 24)\<close> are the
  multiples of \<open>2 ^ k\<close>, up to \<open>k = 253\<close>. \<open>ulp_exponent y\<close> finds this \<open>k\<close> for a magnitude
  \<open>y\<close> in eight steps of a binary search. A magnitude that rounds to \<open>2 ^ 277\<close> or more is
  beyond the largest finite value and becomes an infinity; one that rounds to zero becomes a
  zero with the sign of the exact result.\<close>

definition round_half_even :: "real \<Rightarrow> int" where
  "round_half_even x =
     (if x - of_int \<lfloor>x\<rfloor> < 1 / 2 then \<lfloor>x\<rfloor>
      else if 1 / 2 < x - of_int \<lfloor>x\<rfloor> then \<lfloor>x\<rfloor> + 1
      else if even \<lfloor>x\<rfloor> then \<lfloor>x\<rfloor> else \<lfloor>x\<rfloor> + 1)"

fun ulp_exponent_from :: "nat list \<Rightarrow> nat \<Rightarrow> real \<Rightarrow> nat" where
  "ulp_exponent_from [] k y = k"
| "ulp_exponent_from (s # ss) k y =
     ulp_exponent_from ss (if k + s \<le> 253 \<and> 2 ^ (k + s + 23) \<le> y then k + s else k) y"

definition ulp_exponent :: "real \<Rightarrow> nat" where
  "ulp_exponent y = ulp_exponent_from [128, 64, 32, 16, 8, 4, 2, 1] 0 y"

definition round_to_ulp :: "nat \<Rightarrow> real \<Rightarrow> real" where
  "round_to_ulp k y = of_int (round_half_even (y / 2 ^ k)) * 2 ^ k"

definition float_of_scaled :: "bool \<Rightarrow> real \<Rightarrow> fpval" where
  "float_of_scaled negative q =
     (if 2 ^ 277 \<le> q then signed_inf negative
      else if q = 0 then signed_zero negative
      else Finite ((if negative then - q else q) / 2 ^ 149))"

definition float_round :: "real \<Rightarrow> fpval" where
  "float_round x =
     float_of_scaled (x < 0)
       (round_to_ulp (ulp_exponent (\<bar>x\<bar> * 2 ^ 149)) (\<bar>x\<bar> * 2 ^ 149))"

text \<open>Negation, and the four operations: the special cases first, then the rounded exact
  result. An exact sum that is zero is the negative zero only when both summands are
  negative zeros.\<close>

fun float_neg :: "fpval \<Rightarrow> fpval" where
  "float_neg (Finite x) = (if x = 0 then NegZero else Finite (- x))"
| "float_neg NegZero = Finite 0"
| "float_neg PInf = NInf"
| "float_neg NInf = PInf"
| "float_neg NaN = NaN"

definition float_add :: "fpval \<Rightarrow> fpval \<Rightarrow> fpval" where
  "float_add a b =
     (if a = NaN \<or> b = NaN then NaN
      else if isinf a then (if isinf b \<and> a \<noteq> b then NaN else a)
      else if isinf b then b
      else if valof a + valof b = 0 then signed_zero (signbit a \<and> signbit b)
      else float_round (valof a + valof b))"

definition float_sub :: "fpval \<Rightarrow> fpval \<Rightarrow> fpval" where
  "float_sub a b = float_add a (float_neg b)"

definition float_mul :: "fpval \<Rightarrow> fpval \<Rightarrow> fpval" where
  "float_mul a b =
     (if a = NaN \<or> b = NaN then NaN
      else if (isinf a \<and> iszero b) \<or> (iszero a \<and> isinf b) then NaN
      else if isinf a \<or> isinf b then signed_inf (signbit a \<noteq> signbit b)
      else if valof a * valof b = 0 then signed_zero (signbit a \<noteq> signbit b)
      else float_round (valof a * valof b))"

definition float_div :: "fpval \<Rightarrow> fpval \<Rightarrow> fpval" where
  "float_div a b =
     (if a = NaN \<or> b = NaN then NaN
      else if (isinf a \<and> isinf b) \<or> (iszero a \<and> iszero b) then NaN
      else if isinf a \<or> iszero b then signed_inf (signbit a \<noteq> signbit b)
      else if isinf b \<or> iszero a then signed_zero (signbit a \<noteq> signbit b)
      else float_round (valof a / valof b))"

text \<open>\<^verbatim>\<open>sqrtf\<close>, \<^verbatim>\<open>fabsf\<close>, \<^verbatim>\<open>floorf\<close> and \<^verbatim>\<open>ceilf\<close> of the C library.\<close>

fun sqrtf :: "fpval \<Rightarrow> fpval" where
  "sqrtf (Finite x) = (if x < 0 then NaN else float_round (sqrt x))"
| "sqrtf NegZero = NegZero"
| "sqrtf PInf = PInf"
| "sqrtf NInf = NaN"
| "sqrtf NaN = NaN"

fun fabsf :: "fpval \<Rightarrow> fpval" where
  "fabsf (Finite x) = Finite \<bar>x\<bar>"
| "fabsf NegZero = Finite 0"
| "fabsf PInf = PInf"
| "fabsf NInf = PInf"
| "fabsf NaN = NaN"

fun floorf :: "fpval \<Rightarrow> fpval" where
  "floorf (Finite x) = Finite (of_int \<lfloor>x\<rfloor>)"
| "floorf a = a"

fun ceilf :: "fpval \<Rightarrow> fpval" where
  "ceilf (Finite x) = (if - 1 < x \<and> x < 0 then NegZero else Finite (of_int \<lceil>x\<rceil>))"
| "ceilf a = a"

text \<open>The comparisons \<^verbatim>\<open><\<close>, \<^verbatim>\<open>>\<close> and \<^verbatim>\<open><=\<close>: false when an operand is NaN; the two zeros
  are equal.\<close>

fun float_lt :: "fpval \<Rightarrow> fpval \<Rightarrow> bool" where
  "float_lt NaN b = False"
| "float_lt a NaN = False"
| "float_lt PInf b = False"
| "float_lt a NInf = False"
| "float_lt NInf b = True"
| "float_lt a PInf = True"
| "float_lt a b = (valof a < valof b)"

definition float_gt :: "fpval \<Rightarrow> fpval \<Rightarrow> bool" where
  "float_gt a b = float_lt b a"

definition float_le :: "fpval \<Rightarrow> fpval \<Rightarrow> bool" where
  "float_le a b \<longleftrightarrow> a \<noteq> NaN \<and> b \<noteq> NaN \<and> \<not> float_lt b a"

text \<open>Conversion of an integer to \<^verbatim>\<open>float\<close> rounds. Conversion of a \<^verbatim>\<open>float\<close> to an integer
  type truncates towards zero; the events reduce the result to the width of their argument.
  C++ leaves the conversion undefined for NaN, for the infinities and for a value outside
  the range of the integer type: what the model gives there has no meaning.\<close>

definition float_of_int :: "int \<Rightarrow> fpval" where
  "float_of_int n = float_round (of_int n)"

fun float_to_int :: "fpval \<Rightarrow> int" where
  "float_to_int (Finite x) = (if 0 \<le> x then \<lfloor>x\<rfloor> else \<lceil>x\<rceil>)"
| "float_to_int a = 0"

text \<open>A value that a \<^verbatim>\<open>float\<close> variable can hold.\<close>

definition is_binary32 :: "fpval \<Rightarrow> bool" where
  "is_binary32 a = (case a of Finite x \<Rightarrow> float_round x = Finite x | _ \<Rightarrow> True)"

section \<open>Mission items, vehicle state and events\<close>

datatype (plugins del: "quickcheck" size transfer lifting) nav_cmd_t =
    NAV_CMD_IDLE
  | NAV_CMD_WAYPOINT
  | NAV_CMD_LOITER_UNLIMITED
  | NAV_CMD_LOITER_TIME_LIMIT
  | NAV_CMD_RETURN_TO_LAUNCH
  | NAV_CMD_LAND
  | NAV_CMD_TAKEOFF
  | NAV_CMD_LOITER_TO_ALT
  | NAV_CMD_VTOL_TAKEOFF
  | NAV_CMD_VTOL_LAND
  | NAV_CMD_DELAY
  | NAV_CMD_CONDITION_GATE
  | NAV_CMD_DO_WINCH
  | NAV_CMD_DO_GRIPPER
  | NAV_CMD_DO_JUMP
  | NAV_CMD_DO_CHANGE_SPEED
  | NAV_CMD_DO_SET_HOME
  | NAV_CMD_DO_SET_SERVO
  | NAV_CMD_DO_SET_ACTUATOR
  | NAV_CMD_DO_LAND_START
  | NAV_CMD_DO_TRIGGER_CONTROL
  | NAV_CMD_DO_DIGICAM_CONTROL
  | NAV_CMD_IMAGE_START_CAPTURE
  | NAV_CMD_IMAGE_STOP_CAPTURE
  | NAV_CMD_VIDEO_START_CAPTURE
  | NAV_CMD_VIDEO_STOP_CAPTURE
  | NAV_CMD_DO_CONTROL_VIDEO
  | NAV_CMD_DO_MOUNT_CONFIGURE
  | NAV_CMD_DO_MOUNT_CONTROL
  | NAV_CMD_DO_GIMBAL_MANAGER_PITCHYAW
  | NAV_CMD_DO_GIMBAL_MANAGER_CONFIGURE
  | NAV_CMD_DO_SET_ROI
  | NAV_CMD_DO_SET_ROI_LOCATION
  | NAV_CMD_DO_SET_ROI_WPNEXT_OFFSET
  | NAV_CMD_DO_SET_ROI_NONE
  | NAV_CMD_DO_SET_CAM_TRIGG_DIST
  | NAV_CMD_OBLIQUE_SURVEY
  | NAV_CMD_DO_SET_CAM_TRIGG_INTERVAL
  | NAV_CMD_SET_CAMERA_MODE
  | NAV_CMD_SET_CAMERA_ZOOM
  | NAV_CMD_SET_CAMERA_FOCUS
  | NAV_CMD_DO_VTOL_TRANSITION
  | NAV_CMD_OTHER nat

text \<open>\<^verbatim>\<open>struct mission_item_s\<close>: the fields the checker reads. \<open>params\<close> is the array
  of seven generic parameters, indexed from 0.\<close>

record mission_item =
  nav_cmd :: nav_cmd_t
  lat :: float64
  lon :: float64
  altitude :: float32
  altitude_is_relative :: bool
  acceptance_radius :: float32
  loiter_radius :: float32
  params :: "nat \<Rightarrow> float32"

text \<open>\<^verbatim>\<open>struct mission_s\<close>: the storage id and the number of items.\<close>

record mission =
  dataman_id :: nat
  count :: nat

datatype vehicle_type_t =
    VEHICLE_TYPE_UNKNOWN
  | VEHICLE_TYPE_ROTARY_WING
  | VEHICLE_TYPE_FIXED_WING
  | VEHICLE_TYPE_ROVER
  | VEHICLE_TYPE_AIRSHIP

text \<open>What the checker reads through \<^verbatim>\<open>_navigator\<close>: home position and its validity,
  vehicle status, land detector, the required-items policy, the default acceptance radius
  and the geofence with its three queries.\<close>

record navigator =
  home_global_position_valid :: bool
  home_alt_valid :: bool
  home_position_lat :: float64
  home_position_lon :: float64
  home_position_alt :: float32
  vstatus_is_vtol :: bool
  vstatus_vehicle_type :: vehicle_type_t
  land_detected_landed :: bool
  takeoff_land_required :: int
  default_acceptance_radius :: float32
  geofence_isHomeRequired :: bool
  geofence_valid :: bool
  geofence_check :: "mission_item \<Rightarrow> bool"

text \<open>The collaborators and constants whose code is outside the modelled files are
  parameters: the storage reader, \<^verbatim>\<open>MissionBlock::item_contains_position\<close>,
  \<^verbatim>\<open>get_distance_to_next_waypoint\<close> (four \<^verbatim>\<open>double\<close> arguments, a \<^verbatim>\<open>float\<close> result), the
  parameter store queried for \<^verbatim>\<open>FW_LND_ANG\<close> (\<open>None\<close> is \<^verbatim>\<open>PARAM_INVALID\<close>),
  \<^verbatim>\<open>NAV_EPSILON_POSITION\<close>, \<^verbatim>\<open>PWM_DEFAULT_MAX\<close>, \<^verbatim>\<open>tanf\<close> of the C library and
  \<^verbatim>\<open>math::radians\<close> of \<^verbatim>\<open>lib/mathlib\<close> at type \<^verbatim>\<open>float\<close>.\<close>

record platform =
  dm_read :: "nat \<Rightarrow> nat \<Rightarrow> mission_item option"
  item_contains_position :: "mission_item \<Rightarrow> bool"
  get_distance_to_next_waypoint :: "float64 \<Rightarrow> float64 \<Rightarrow> float64 \<Rightarrow> float64 \<Rightarrow> float32"
  param_FW_LND_ANG :: "float32 option"
  NAV_EPSILON_POSITION :: float32
  PWM_DEFAULT_MAX :: int
  tanf :: "float32 \<Rightarrow> float32"
  radians :: "float32 \<Rightarrow> float32"

text \<open>The events, one constructor per event id of the source (the id without its
  \<^verbatim>\<open>navigator_\<close> prefix), with the arguments the code sends.\<close>

datatype (plugins del: "quickcheck" size transfer lifting) event =
    Mis_no_pos_lock
  | Mis_geofence_no_home
  | Mis_geofence_no_home2
  | Mis_geofence_violation "16 word"
  | Mis_no_home_rel_alt "16 word"
  | Mis_wp_below_home "16 word"
  | Mis_sd_failure
  | Mis_unsup_cmd "16 word" nav_cmd_t
  | Mis_act_index "32 word"
  | Mis_act_range "32 word" "32 word"
  | Mis_starts_w_landing
  | Mis_takeoff_too_low float32
  | Mis_takeoff_not_first
  | Mis_multiple_land
  | Mis_land_angle_param_missing
  | Mis_approach_wp_below_land
  | Mis_land_wp_inside_orbit_radius
  | Mis_unsupported_landing_approach_wp
  | Mis_glide_slope_too_steep "8 word" "8 word"
  | Mis_correct_glide_slope "32 word" "32 word"
  | Mis_req_landing_approach
  | Mis_starts_w_landing2
  | Mis_land_before_rtl
  | Mis_invalid_land
  | Mis_multi_land
  | Mis_starts_w_land
  | Mis_land_before_rtl2
  | Mis_invalid_land2
  | Mis_takeoff_missing
  | Mis_land_missing
  | Mis_takeoff_or_land_missing
  | Mis_add_land_or_rm_to
  | Mis_add_to_or_rm_land
  | Mis_storage_failure
  | Mis_first_wp_too_far "32 word" "32 word"
  | Mis_storage_failure2
  | Mis_wp_dist_too_far "32 word" "32 word"
  | Mis_wp_gate_too_close float32 float32

text \<open>The mutable state of one checker: the warning flag of the mission result, the
  members \<^verbatim>\<open>_has_takeoff\<close> and \<^verbatim>\<open>_has_landing\<close>, and the event sink.\<close>

record checker =
  warning :: bool
  has_takeoff :: bool
  has_landing :: bool
  events :: "event list"

definition send :: "event \<Rightarrow> checker \<Rightarrow> checker" where
  "send e st = st\<lparr>events := events st @ [e]\<rparr>"

section \<open>Geofence check\<close>

function checkGeofence_loop ::
  "platform \<Rightarrow> navigator \<Rightarrow> mission \<Rightarrow> float32 \<Rightarrow> bool \<Rightarrow> nat \<Rightarrow> checker \<Rightarrow> bool \<times> checker" where
  "checkGeofence_loop P N m home_alt home_valid i st =
     (if i < count m then
        (case dm_read P (dataman_id m) i of
           None \<Rightarrow> (False, st)
         | Some missionitem \<Rightarrow>
             if altitude_is_relative missionitem \<and> \<not> home_valid then
               (False, send Mis_geofence_no_home2 st)
             else
               let missionitem' = missionitem\<lparr>altitude :=
                     (if altitude_is_relative missionitem
                      then float_add (altitude missionitem) home_alt
                      else altitude missionitem)\<rparr>
               in if item_contains_position P missionitem' \<and> \<not> geofence_check N missionitem' then
                    (False, send (Mis_geofence_violation (word_of_nat (i + 1))) st)
                  else checkGeofence_loop P N m home_alt home_valid (Suc i) st)
      else (True, st))"
  by pat_completeness auto
termination
  by (relation "measure (\<lambda>(P, N, m, home_alt, home_valid, i, st). count m - i)") auto

declare checkGeofence_loop.simps [simp del]

definition checkGeofence ::
  "platform \<Rightarrow> navigator \<Rightarrow> mission \<Rightarrow> float32 \<Rightarrow> bool \<Rightarrow> checker \<Rightarrow> bool \<times> checker" where
  "checkGeofence P N m home_alt home_valid st =
     (if geofence_isHomeRequired N \<and> \<not> home_valid then
        (False, send Mis_geofence_no_home st)
      else if geofence_valid N then
        checkGeofence_loop P N m home_alt home_valid 0 st
      else (True, st))"

section \<open>Home altitude check\<close>

function checkHomePositionAltitude_loop ::
  "platform \<Rightarrow> mission \<Rightarrow> float32 \<Rightarrow> bool \<Rightarrow> nat \<Rightarrow> checker \<Rightarrow> bool \<times> checker" where
  "checkHomePositionAltitude_loop P m home_alt home_alt_valid' i st =
     (if i < count m then
        (case dm_read P (dataman_id m) i of
           None \<Rightarrow> (False, st\<lparr>warning := True\<rparr>)
         | Some missionitem \<Rightarrow>
             if altitude_is_relative missionitem \<and> \<not> home_alt_valid' \<and>
                item_contains_position P missionitem then
               (False, send (Mis_no_home_rel_alt (word_of_nat (i + 1))) (st\<lparr>warning := True\<rparr>))
             else
               let wp_alt = (if altitude_is_relative missionitem
                             then float_add (altitude missionitem) home_alt
                             else altitude missionitem)
               in checkHomePositionAltitude_loop P m home_alt home_alt_valid' (Suc i)
                    (if home_alt_valid' \<and> float_gt home_alt wp_alt \<and>
                        item_contains_position P missionitem
                     then send (Mis_wp_below_home (word_of_nat (i + 1))) (st\<lparr>warning := True\<rparr>)
                     else st))
      else (True, st))"
  by pat_completeness auto
termination
  by (relation "measure (\<lambda>(P, m, home_alt, home_alt_valid', i, st). count m - i)") auto

declare checkHomePositionAltitude_loop.simps [simp del]

definition checkHomePositionAltitude ::
  "platform \<Rightarrow> mission \<Rightarrow> float32 \<Rightarrow> bool \<Rightarrow> checker \<Rightarrow> bool \<times> checker" where
  "checkHomePositionAltitude P m home_alt home_alt_valid' st =
     checkHomePositionAltitude_loop P m home_alt home_alt_valid' 0 st"

section \<open>Mission item validity\<close>

text \<open>In the source the two parameter tests of \<^verbatim>\<open>NAV_CMD_DO_SET_SERVO\<close> stand inside one
  \<^verbatim>\<open>if\<close> on the command; the chain below takes the same branches in the same order. The
  integers that a \<^verbatim>\<open>float\<close> is compared with are converted to \<^verbatim>\<open>float\<close> first.\<close>

function checkMissionItemValidity_loop ::
  "platform \<Rightarrow> navigator \<Rightarrow> mission \<Rightarrow> nat \<Rightarrow> checker \<Rightarrow> bool \<times> checker" where
  "checkMissionItemValidity_loop P N m i st =
     (if i < count m then
        (case dm_read P (dataman_id m) i of
           None \<Rightarrow> (False, send Mis_sd_failure st)
         | Some missionitem \<Rightarrow>
             if nav_cmd missionitem \<noteq> NAV_CMD_IDLE \<and>
                nav_cmd missionitem \<noteq> NAV_CMD_WAYPOINT \<and>
                nav_cmd missionitem \<noteq> NAV_CMD_LOITER_UNLIMITED \<and>
                nav_cmd missionitem \<noteq> NAV_CMD_LOITER_TIME_LIMIT \<and>
                nav_cmd missionitem \<noteq> NAV_CMD_RETURN_TO_LAUNCH \<and>
                nav_cmd missionitem \<noteq> NAV_CMD_LAND \<and>
                nav_cmd missionitem \<noteq> NAV_CMD_TAKEOFF \<and>
                nav_cmd missionitem \<noteq> NAV_CMD_LOITER_TO_ALT \<and>
                nav_cmd missionitem \<noteq> NAV_CMD_VTOL_TAKEOFF \<and>
                nav_cmd missionitem \<noteq> NAV_CMD_VTOL_LAND \<and>
                nav_cmd missionitem \<noteq> NAV_CMD_DELAY \<and>
                nav_cmd missionitem \<noteq> NAV_CMD_CONDITION_GATE \<and>
                nav_cmd missionitem \<noteq> NAV_CMD_DO_WINCH \<and>
                nav_cmd missionitem \<noteq> NAV_CMD_DO_GRIPPER \<and>
                nav_cmd missionitem \<noteq> NAV_CMD_DO_JUMP \<and>
                nav_cmd missionitem \<noteq> NAV_CMD_DO_CHANGE_SPEED \<and>
                nav_cmd missionitem \<noteq> NAV_CMD_DO_SET_HOME \<and>
                nav_cmd missionitem \<noteq> NAV_CMD_DO_SET_SERVO \<and>
                nav_cmd missionitem \<noteq> NAV_CMD_DO_SET_ACTUATOR \<and>
                nav_cmd missionitem \<noteq> NAV_CMD_DO_LAND_START \<and>
                nav_cmd missionitem \<noteq> NAV_CMD_DO_TRIGGER_CONTROL \<and>
                nav_cmd missionitem \<noteq> NAV_CMD_DO_DIGICAM_CONTROL \<and>
                nav_cmd missionitem \<noteq> NAV_CMD_IMAGE_START_CAPTURE \<and>
                nav_cmd missionitem \<noteq> NAV_CMD_IMAGE_STOP_CAPTURE \<and>
                nav_cmd missionitem \<noteq> NAV_CMD_VIDEO_START_CAPTURE \<and>
                nav_cmd missionitem \<noteq> NAV_CMD_VIDEO_STOP_CAPTURE \<and>
                nav_cmd missionitem \<noteq> NAV_CMD_DO_CONTROL_VIDEO \<and>
                nav_cmd missionitem \<noteq> NAV_CMD_DO_MOUNT_CONFIGURE \<and>
                nav_cmd missionitem \<noteq> NAV_CMD_DO_MOUNT_CONTROL \<and>
                nav_cmd missionitem \<noteq> NAV_CMD_DO_GIMBAL_MANAGER_PITCHYAW \<and>
                nav_cmd missionitem \<noteq> NAV_CMD_DO_GIMBAL_MANAGER_CONFIGURE \<and>
                nav_cmd missionitem \<noteq> NAV_CMD_DO_SET_ROI \<and>
                nav_cmd missionitem \<noteq> NAV_CMD_DO_SET_ROI_LOCATION \<and>
                nav_cmd missionitem \<noteq> NAV_CMD_DO_SET_ROI_WPNEXT_OFFSET \<and>
                nav_cmd missionitem \<noteq> NAV_CMD_DO_SET_ROI_NONE \<and>
                nav_cmd missionitem \<noteq> NAV_CMD_DO_SET_CAM_TRIGG_DIST \<and>
                nav_cmd missionitem \<noteq> NAV_CMD_OBLIQUE_SURVEY \<and>
                nav_cmd missionitem \<noteq> NAV_CMD_DO_SET_CAM_TRIGG_INTERVAL \<and>
                nav_cmd missionitem \<noteq> NAV_CMD_SET_CAMERA_MODE \<and>
                nav_cmd missionitem \<noteq> NAV_CMD_SET_CAMERA_ZOOM \<and>
                nav_cmd missionitem \<noteq> NAV_CMD_SET_CAMERA_FOCUS \<and>
                nav_cmd missionitem \<noteq> NAV_CMD_DO_VTOL_TRANSITION then
               (False, send (Mis_unsup_cmd (word_of_nat (i + 1)) (nav_cmd missionitem)) st)
             else if nav_cmd missionitem = NAV_CMD_DO_SET_SERVO \<and>
                     (float_lt (params missionitem 0) (float_of_int 0) \<or>
                      float_gt (params missionitem 0) (float_of_int 5)) then
               (False, send (Mis_act_index (word_of_int (float_to_int (params missionitem 0)))) st)
             else if nav_cmd missionitem = NAV_CMD_DO_SET_SERVO \<and>
                     (float_lt (params missionitem 1) (float_of_int (- PWM_DEFAULT_MAX P)) \<or>
                      float_gt (params missionitem 1) (float_of_int (PWM_DEFAULT_MAX P))) then
               (False, send (Mis_act_range (word_of_int (float_to_int (params missionitem 1)))
                                           (word_of_int (PWM_DEFAULT_MAX P))) st)
             else if i = 0 \<and> nav_cmd missionitem = NAV_CMD_LAND \<and> land_detected_landed N then
               (False, send Mis_starts_w_landing st)
             else checkMissionItemValidity_loop P N m (Suc i) st)
      else (True, st))"
  by pat_completeness auto
termination
  by (relation "measure (\<lambda>(P, N, m, i, st). count m - i)") auto

declare checkMissionItemValidity_loop.simps [simp del]

definition checkMissionItemValidity ::
  "platform \<Rightarrow> navigator \<Rightarrow> mission \<Rightarrow> checker \<Rightarrow> bool \<times> checker" where
  "checkMissionItemValidity P N m st = checkMissionItemValidity_loop P N m 0 st"

section \<open>Takeoff check\<close>

text \<open>The first loop of \<^verbatim>\<open>checkTakeoff\<close>. \<open>Inl\<close> is a \<^verbatim>\<open>return\<close> from inside the loop,
  \<open>Inr\<close> carries the locals \<^verbatim>\<open>takeoff_first\<close> and \<^verbatim>\<open>takeoff_index\<close> out of the loop.\<close>

function checkTakeoff_loop1 ::
  "platform \<Rightarrow> navigator \<Rightarrow> mission \<Rightarrow> float32 \<Rightarrow> nat \<Rightarrow> bool \<Rightarrow> int \<Rightarrow> checker
     \<Rightarrow> (bool \<times> checker) + (bool \<times> int \<times> checker)" where
  "checkTakeoff_loop1 P N m home_alt i takeoff_first takeoff_index st =
     (if i < count m then
        (case dm_read P (dataman_id m) i of
           None \<Rightarrow> Inl (False, st)
         | Some missionitem \<Rightarrow>
             if nav_cmd missionitem = NAV_CMD_TAKEOFF \<or> nav_cmd missionitem = NAV_CMD_VTOL_TAKEOFF then
               let takeoff_alt = (if altitude_is_relative missionitem
                                  then altitude missionitem
                                  else float_sub (altitude missionitem) home_alt);
                   acceptance_radius' =
                     (if float_gt (acceptance_radius missionitem) (NAV_EPSILON_POSITION P)
                      then acceptance_radius missionitem
                      else default_acceptance_radius N)
               in if float_lt (float_sub takeoff_alt (Finite 1)) acceptance_radius' then
                    Inl (False,
                      send (Mis_takeoff_too_low (float_add acceptance_radius' (Finite 1))) st)
                  else
                    checkTakeoff_loop1 P N m home_alt (Suc i)
                      (if i = 0 then True else takeoff_first)
                      (if i = 0 then takeoff_index
                       else if takeoff_index = - 1 then int i else takeoff_index)
                      (st\<lparr>has_takeoff := True\<rparr>)
             else checkTakeoff_loop1 P N m home_alt (Suc i) takeoff_first takeoff_index st)
      else Inr (takeoff_first, takeoff_index, st))"
  by pat_completeness auto
termination
  by (relation "measure (\<lambda>(P, N, m, home_alt, i, takeoff_first, takeoff_index, st). count m - i)")
     auto

declare checkTakeoff_loop1.simps [simp del]

text \<open>The second loop: every iteration assigns \<^verbatim>\<open>takeoff_first\<close> anew.\<close>

function checkTakeoff_loop2 ::
  "platform \<Rightarrow> mission \<Rightarrow> int \<Rightarrow> nat \<Rightarrow> bool \<Rightarrow> checker \<Rightarrow> (bool \<times> checker) + bool" where
  "checkTakeoff_loop2 P m takeoff_index i takeoff_first st =
     (if i < nat takeoff_index then
        (case dm_read P (dataman_id m) i of
           None \<Rightarrow> Inl (False, st)
         | Some missionitem \<Rightarrow>
             checkTakeoff_loop2 P m takeoff_index (Suc i)
               (\<not> (nav_cmd missionitem \<noteq> NAV_CMD_IDLE \<and>
                   nav_cmd missionitem \<noteq> NAV_CMD_DELAY \<and>
                   nav_cmd missionitem \<noteq> NAV_CMD_DO_JUMP \<and>
                   nav_cmd missionitem \<noteq> NAV_CMD_DO_CHANGE_SPEED \<and>
                   nav_cmd missionitem \<noteq> NAV_CMD_DO_SET_HOME \<and>
                   nav_cmd missionitem \<noteq> NAV_CMD_DO_SET_SERVO \<and>
                   nav_cmd missionitem \<noteq> NAV_CMD_DO_LAND_START \<and>
                   nav_cmd missionitem \<noteq> NAV_CMD_DO_TRIGGER_CONTROL \<and>
                   nav_cmd missionitem \<noteq> NAV_CMD_DO_DIGICAM_CONTROL \<and>
                   nav_cmd missionitem \<noteq> NAV_CMD_IMAGE_START_CAPTURE \<and>
                   nav_cmd missionitem \<noteq> NAV_CMD_IMAGE_STOP_CAPTURE \<and>
                   nav_cmd missionitem \<noteq> NAV_CMD_VIDEO_START_CAPTURE \<and>
                   nav_cmd missionitem \<noteq> NAV_CMD_VIDEO_STOP_CAPTURE \<and>
                   nav_cmd missionitem \<noteq> NAV_CMD_DO_CONTROL_VIDEO \<and>
                   nav_cmd missionitem \<noteq> NAV_CMD_DO_MOUNT_CONFIGURE \<and>
                   nav_cmd missionitem \<noteq> NAV_CMD_DO_MOUNT_CONTROL \<and>
                   nav_cmd missionitem \<noteq> NAV_CMD_DO_GIMBAL_MANAGER_PITCHYAW \<and>
                   nav_cmd missionitem \<noteq> NAV_CMD_DO_GIMBAL_MANAGER_CONFIGURE \<and>
                   nav_cmd missionitem \<noteq> NAV_CMD_DO_SET_ROI \<and>
                   nav_cmd missionitem \<noteq> NAV_CMD_DO_SET_ROI_LOCATION \<and>
                   nav_cmd missionitem \<noteq> NAV_CMD_DO_SET_ROI_WPNEXT_OFFSET \<and>
                   nav_cmd missionitem \<noteq> NAV_CMD_DO_SET_ROI_NONE \<and>
                   nav_cmd missionitem \<noteq> NAV_CMD_DO_SET_CAM_TRIGG_DIST \<and>
                   nav_cmd missionitem \<noteq> NAV_CMD_OBLIQUE_SURVEY \<and>
                   nav_cmd missionitem \<noteq> NAV_CMD_DO_SET_CAM_TRIGG_INTERVAL \<and>
                   nav_cmd missionitem \<noteq> NAV_CMD_SET_CAMERA_MODE \<and>
                   nav_cmd missionitem \<noteq> NAV_CMD_SET_CAMERA_ZOOM \<and>
                   nav_cmd missionitem \<noteq> NAV_CMD_SET_CAMERA_FOCUS \<and>
                   nav_cmd missionitem \<noteq> NAV_CMD_DO_VTOL_TRANSITION))
               st)
      else Inr takeoff_first)"
  by pat_completeness auto
termination
  by (relation "measure (\<lambda>(P, m, takeoff_index, i, takeoff_first, st). nat takeoff_index - i)") auto

declare checkTakeoff_loop2.simps [simp del]

definition checkTakeoff ::
  "platform \<Rightarrow> navigator \<Rightarrow> mission \<Rightarrow> float32 \<Rightarrow> checker \<Rightarrow> bool \<times> checker" where
  "checkTakeoff P N m home_alt st =
     (case checkTakeoff_loop1 P N m home_alt 0 False (- 1) st of
        Inl r \<Rightarrow> r
      | Inr (takeoff_first, takeoff_index, st1) \<Rightarrow>
          (case (if takeoff_index \<noteq> - 1
                 then checkTakeoff_loop2 P m takeoff_index 0 takeoff_first st1
                 else Inr takeoff_first) of
             Inl r \<Rightarrow> r
           | Inr takeoff_first' \<Rightarrow>
               if has_takeoff st1 \<and> \<not> takeoff_first' then
                 (False, send Mis_takeoff_not_first st1)
               else (True, st1)))"

section \<open>Landing checks\<close>

function hasMissionLanding_loop :: "platform \<Rightarrow> mission \<Rightarrow> nat \<Rightarrow> bool \<Rightarrow> bool" where
  "hasMissionLanding_loop P m i mission_landing_found =
     (if i < count m then
        (case dm_read P (dataman_id m) i of
           None \<Rightarrow> False
         | Some missionitem \<Rightarrow>
             hasMissionLanding_loop P m (Suc i)
               (if nav_cmd missionitem = NAV_CMD_LAND then True else mission_landing_found))
      else mission_landing_found)"
  by pat_completeness auto
termination
  by (relation "measure (\<lambda>(P, m, i, mission_landing_found). count m - i)") auto

declare hasMissionLanding_loop.simps [simp del]

definition hasMissionLanding :: "platform \<Rightarrow> mission \<Rightarrow> bool" where
  "hasMissionLanding P m = hasMissionLanding_loop P m 0 False"

text \<open>\<^verbatim>\<open>FLT_EPSILON\<close> of \<^verbatim>\<open>cfloat\<close> for IEEE single precision.\<close>

definition FLT_EPSILON :: float32 where
  "FLT_EPSILON = Finite (1 / 2 ^ 23)"

text \<open>The loop of \<^verbatim>\<open>checkFixedWingLanding\<close>. Every arithmetic operation of the source is one
  operation of the model, so every intermediate result is rounded to binary32: the compiler
  is taken not to contract \<^verbatim>\<open>a * a - b * b\<close> into a fused multiply-add. The literal
  \<^verbatim>\<open>0.1f\<close> is the binary32 value nearest to one tenth.\<close>

function checkFixedWingLanding_loop ::
  "platform \<Rightarrow> navigator \<Rightarrow> mission \<Rightarrow> nat \<Rightarrow> bool \<Rightarrow> nat \<Rightarrow> nat \<Rightarrow> checker
     \<Rightarrow> (bool \<times> checker) + (bool \<times> nat \<times> nat \<times> checker)" where
  "checkFixedWingLanding_loop P N m i landing_valid do_land_start_index landing_approach_index st =
     (if i < count m then
        (case dm_read P (dataman_id m) i of
           None \<Rightarrow> Inl (False, st)
         | Some missionitem \<Rightarrow>
             if nav_cmd missionitem = NAV_CMD_DO_LAND_START \<and> has_landing st then
               Inl (False, send Mis_multiple_land st)
             else
               let st1 = (if nav_cmd missionitem = NAV_CMD_DO_LAND_START
                          then st\<lparr>has_landing := True\<rparr> else st);
                   do_land_start_index' = (if nav_cmd missionitem = NAV_CMD_DO_LAND_START
                                           then i else do_land_start_index)
               in
               if nav_cmd missionitem = NAV_CMD_LAND then
                 let st2 = st1\<lparr>has_landing := True\<rparr> in
                 (case param_FW_LND_ANG P of
                    None \<Rightarrow> Inl (False, send Mis_land_angle_param_missing st2)
                  | Some param_fw_lnd_ang \<Rightarrow>
                      if i > 0 then
                        (case dm_read P (dataman_id m) (i - 1) of
                           None \<Rightarrow> Inl (False, st2)
                         | Some missionitem_previous \<Rightarrow>
                             if item_contains_position P missionitem_previous then
                               let land_alt_amsl =
                                     (if altitude_is_relative missionitem
                                      then float_add (altitude missionitem) (home_position_alt N)
                                      else altitude missionitem);
                                   entrance_alt_amsl =
                                     (if altitude_is_relative missionitem_previous
                                      then float_add (altitude missionitem_previous)
                                             (home_position_alt N)
                                      else altitude missionitem_previous);
                                   relative_approach_altitude =
                                     float_sub entrance_alt_amsl land_alt_amsl
                               in
                               if float_lt relative_approach_altitude FLT_EPSILON then
                                 Inl (False, send Mis_approach_wp_below_land st2)
                               else
                                 (case
                                    (if nav_cmd missionitem_previous = NAV_CMD_LOITER_TO_ALT then
                                       let distance_orbit_center_to_land =
                                             get_distance_to_next_waypoint P
                                               (lat missionitem_previous) (lon missionitem_previous)
                                               (lat missionitem) (lon missionitem);
                                           orbit_radius = fabsf (loiter_radius missionitem_previous)
                                       in if float_le distance_orbit_center_to_land orbit_radius
                                          then Inl Mis_land_wp_inside_orbit_radius
                                          else
                                            Inr (sqrtf (float_sub
                                                   (float_mul distance_orbit_center_to_land
                                                      distance_orbit_center_to_land)
                                                   (float_mul orbit_radius orbit_radius)))
                                     else if nav_cmd missionitem_previous = NAV_CMD_WAYPOINT then
                                       Inr (get_distance_to_next_waypoint P
                                              (lat missionitem_previous) (lon missionitem_previous)
                                              (lat missionitem) (lon missionitem))
                                     else Inl Mis_unsupported_landing_approach_wp) of
                                    Inl e \<Rightarrow> Inl (False, send e st2)
                                  | Inr landing_approach_distance \<Rightarrow>
                                      let glide_slope =
                                            float_div relative_approach_altitude
                                              landing_approach_distance;
                                          max_glide_slope =
                                            tanf P (radians P
                                              (float_add param_fw_lnd_ang (float_round (1 / 10))))
                                      in
                                      if float_gt glide_slope max_glide_slope then
                                        Inl (False,
                                          send (Mis_correct_glide_slope
                                                  (word_of_int (float_to_int
                                                     (float_mul max_glide_slope
                                                        landing_approach_distance)))
                                                  (word_of_int (float_to_int
                                                     (ceilf (float_div relative_approach_altitude
                                                               max_glide_slope)))))
                                            (send (Mis_glide_slope_too_steep
                                                     (word_of_int (float_to_int param_fw_lnd_ang))
                                                     (word_of_int (float_to_int
                                                        (float_mul
                                                           (float_sub param_fw_lnd_ang
                                                              (floorf param_fw_lnd_ang))
                                                           (Finite 10)))))
                                               st2))
                                      else
                                        checkFixedWingLanding_loop P N m (Suc i) True
                                          do_land_start_index' (i - 1) st2)
                             else Inl (False, send Mis_req_landing_approach st2))
                      else Inl (False, send Mis_starts_w_landing2 st2))
               else if nav_cmd missionitem = NAV_CMD_RETURN_TO_LAUNCH then
                 (if has_landing st1 \<and> do_land_start_index' < i then
                    Inl (False, send Mis_land_before_rtl st1)
                  else
                    checkFixedWingLanding_loop P N m (Suc i) landing_valid
                      do_land_start_index' landing_approach_index st1)
               else
                 checkFixedWingLanding_loop P N m (Suc i) landing_valid
                   do_land_start_index' landing_approach_index st1)
      else Inr (landing_valid, do_land_start_index, landing_approach_index, st))"
  by pat_completeness auto
termination
  by (relation "measure (\<lambda>(P, N, m, i, landing_valid, do_land_start_index,
                           landing_approach_index, st). count m - i)") auto

declare checkFixedWingLanding_loop.simps [simp del]

definition checkFixedWingLanding ::
  "platform \<Rightarrow> navigator \<Rightarrow> mission \<Rightarrow> checker \<Rightarrow> bool \<times> checker" where
  "checkFixedWingLanding P N m st =
     (case checkFixedWingLanding_loop P N m 0 False 0 0 st of
        Inl r \<Rightarrow> r
      | Inr (landing_valid, do_land_start_index, landing_approach_index, st') \<Rightarrow>
          if has_landing st' \<and>
             (\<not> landing_valid \<or> do_land_start_index > landing_approach_index) then
            (False, send Mis_invalid_land st')
          else (True, st'))"

function checkVTOLLanding_loop ::
  "platform \<Rightarrow> mission \<Rightarrow> nat \<Rightarrow> nat \<Rightarrow> nat \<Rightarrow> checker
     \<Rightarrow> (bool \<times> checker) + (nat \<times> nat \<times> checker)" where
  "checkVTOLLanding_loop P m i do_land_start_index landing_approach_index st =
     (if i < count m then
        (case dm_read P (dataman_id m) i of
           None \<Rightarrow> Inl (False, st)
         | Some missionitem \<Rightarrow>
             if nav_cmd missionitem = NAV_CMD_DO_LAND_START \<and> has_landing st then
               Inl (False, send Mis_multi_land st)
             else
               let st1 = (if nav_cmd missionitem = NAV_CMD_DO_LAND_START
                          then st\<lparr>has_landing := True\<rparr> else st);
                   do_land_start_index' = (if nav_cmd missionitem = NAV_CMD_DO_LAND_START
                                           then i else do_land_start_index)
               in
               if nav_cmd missionitem = NAV_CMD_LAND \<or> nav_cmd missionitem = NAV_CMD_VTOL_LAND then
                 let st2 = st1\<lparr>has_landing := True\<rparr> in
                 if i > 0 then
                   (case dm_read P (dataman_id m) (i - 1) of
                      None \<Rightarrow> Inl (False, st2)
                    | Some missionitem_previous \<Rightarrow>
                        checkVTOLLanding_loop P m (Suc i) do_land_start_index' (i - 1) st2)
                 else Inl (False, send Mis_starts_w_land st2)
               else if nav_cmd missionitem = NAV_CMD_RETURN_TO_LAUNCH then
                 (if has_landing st1 \<and> do_land_start_index' < i then
                    Inl (False, send Mis_land_before_rtl2 st1)
                  else
                    checkVTOLLanding_loop P m (Suc i) do_land_start_index' landing_approach_index st1)
               else
                 checkVTOLLanding_loop P m (Suc i) do_land_start_index' landing_approach_index st1)
      else Inr (do_land_start_index, landing_approach_index, st))"
  by pat_completeness auto
termination
  by (relation "measure (\<lambda>(P, m, i, do_land_start_index, landing_approach_index, st).
                           count m - i)") auto

declare checkVTOLLanding_loop.simps [simp del]

definition checkVTOLLanding :: "platform \<Rightarrow> mission \<Rightarrow> checker \<Rightarrow> bool \<times> checker" where
  "checkVTOLLanding P m st =
     (case checkVTOLLanding_loop P m 0 0 0 st of
        Inl r \<Rightarrow> r
      | Inr (do_land_start_index, landing_approach_index, st') \<Rightarrow>
          if has_landing st' \<and> do_land_start_index > landing_approach_index then
            (False, send Mis_invalid_land2 st')
          else (True, st'))"

section \<open>Required takeoff and landing items\<close>

definition checkTakeoffLandAvailable :: "navigator \<Rightarrow> checker \<Rightarrow> bool \<times> checker" where
  "checkTakeoffLandAvailable N st =
     (if takeoff_land_required N = 0 then (True, st)
      else if takeoff_land_required N = 1 then
        (if \<not> has_takeoff st then (False, send Mis_takeoff_missing st)
         else (has_takeoff st, st))
      else if takeoff_land_required N = 2 then
        (has_landing st, if \<not> has_landing st then send Mis_land_missing st else st)
      else if takeoff_land_required N = 3 then
        (let result = has_takeoff st \<and> has_landing st
         in (result, if \<not> result then send Mis_takeoff_or_land_missing st else st))
      else if takeoff_land_required N = 4 then
        (let result = (has_takeoff st = has_landing st)
         in (result,
             if \<not> result \<and> has_takeoff st then send Mis_add_land_or_rm_to st
             else if \<not> result \<and> has_landing st then send Mis_add_to_or_rm_land st
             else st))
      else (True, st))"

section \<open>Distance checks\<close>

function checkDistanceToFirstWaypoint_loop ::
  "platform \<Rightarrow> navigator \<Rightarrow> mission \<Rightarrow> float32 \<Rightarrow> nat \<Rightarrow> checker \<Rightarrow> bool \<times> checker" where
  "checkDistanceToFirstWaypoint_loop P N m max_distance i st =
     (if i < count m then
        (case dm_read P (dataman_id m) i of
           None \<Rightarrow> (False, send Mis_storage_failure st)
         | Some mission_item \<Rightarrow>
             if \<not> item_contains_position P mission_item then
               checkDistanceToFirstWaypoint_loop P N m max_distance (Suc i) st
             else
               let dist_to_1wp = get_distance_to_next_waypoint P
                     (lat mission_item) (lon mission_item)
                     (home_position_lat N) (home_position_lon N)
               in if float_lt dist_to_1wp max_distance then (True, st)
                  else
                    (False,
                     (send (Mis_first_wp_too_far (word_of_int (float_to_int dist_to_1wp))
                                                 (word_of_int (float_to_int max_distance)))
                        st)\<lparr>warning := True\<rparr>))
      else (True, st))"
  by pat_completeness auto
termination
  by (relation "measure (\<lambda>(P, N, m, max_distance, i, st). count m - i)") auto

declare checkDistanceToFirstWaypoint_loop.simps [simp del]

definition checkDistanceToFirstWaypoint ::
  "platform \<Rightarrow> navigator \<Rightarrow> mission \<Rightarrow> float32 \<Rightarrow> checker \<Rightarrow> bool \<times> checker" where
  "checkDistanceToFirstWaypoint P N m max_distance st =
     (if float_le max_distance (Finite 0) then (True, st)
      else checkDistanceToFirstWaypoint_loop P N m max_distance 0 st)"

text \<open>\<^verbatim>\<open>last_lat\<close> and \<^verbatim>\<open>last_lon\<close> start as \<^verbatim>\<open>NAN\<close>. \<^verbatim>\<open>last_cmd\<close> starts as the
  integer 0; it is read only when \<^verbatim>\<open>last_lat\<close> is finite, that is after an item's command
  has been stored in it, and its initial value is \<open>None\<close>. The literal \<^verbatim>\<open>0.05f\<close> is the
  binary32 value nearest to five hundredths.\<close>

function checkDistancesBetweenWaypoints_loop ::
  "platform \<Rightarrow> mission \<Rightarrow> float32 \<Rightarrow> nat \<Rightarrow> float64 \<Rightarrow> float64 \<Rightarrow> nav_cmd_t option
     \<Rightarrow> checker \<Rightarrow> bool \<times> checker" where
  "checkDistancesBetweenWaypoints_loop P m max_distance i last_lat last_lon last_cmd st =
     (if i < count m then
        (case dm_read P (dataman_id m) i of
           None \<Rightarrow> (False, send Mis_storage_failure2 st)
         | Some mission_item \<Rightarrow>
             if \<not> item_contains_position P mission_item then
               checkDistancesBetweenWaypoints_loop P m max_distance (Suc i)
                 last_lat last_lon last_cmd st
             else
               (case
                  (if isfinite last_lat \<and> isfinite last_lon then
                     let dist_between_waypoints = get_distance_to_next_waypoint P
                           (lat mission_item) (lon mission_item) last_lat last_lon
                     in if float_gt dist_between_waypoints max_distance then
                          Some (False,
                            (send (Mis_wp_dist_too_far
                                     (word_of_int (float_to_int dist_between_waypoints))
                                     (word_of_int (float_to_int max_distance)))
                               st)\<lparr>warning := True\<rparr>)
                        else if float_lt dist_between_waypoints (float_round (5 / 100)) \<and>
                                (nav_cmd mission_item = NAV_CMD_CONDITION_GATE \<or>
                                 last_cmd = Some NAV_CMD_CONDITION_GATE) then
                          Some (False,
                            (send (Mis_wp_gate_too_close dist_between_waypoints
                                     (float_round (5 / 100)))
                               st)\<lparr>warning := True\<rparr>)
                        else None
                   else None) of
                  Some r \<Rightarrow> r
                | None \<Rightarrow>
                    checkDistancesBetweenWaypoints_loop P m max_distance (Suc i)
                      (lat mission_item) (lon mission_item)
                      (Some (nav_cmd mission_item)) st))
      else (True, st))"
  by pat_completeness auto
termination
  by (relation "measure (\<lambda>(P, m, max_distance, i, last_lat, last_lon, last_cmd, st).
                           count m - i)") auto

declare checkDistancesBetweenWaypoints_loop.simps [simp del]

definition checkDistancesBetweenWaypoints ::
  "platform \<Rightarrow> mission \<Rightarrow> float32 \<Rightarrow> checker \<Rightarrow> bool \<times> checker" where
  "checkDistancesBetweenWaypoints P m max_distance st =
     (if float_le max_distance (Finite 0) then (True, st)
      else checkDistancesBetweenWaypoints_loop P m max_distance 0 NaN NaN None st)"

section \<open>The orchestrator\<close>

definition checkMissionFeasible ::
  "platform \<Rightarrow> navigator \<Rightarrow> mission \<Rightarrow> float32 \<Rightarrow> float32 \<Rightarrow> checker \<Rightarrow> bool \<times> checker" where
  "checkMissionFeasible P N m max_distance_to_1st_waypoint max_distance_between_waypoints st =
     (let st0 = st\<lparr>warning := False\<rparr> in
      if int (count m) \<le> 0 then (False, st0)
      else
        let home_valid = home_global_position_valid N;
            home_alt_valid' = home_alt_valid N;
            (ok1, st1) =
              (if \<not> home_alt_valid' then (False, send Mis_no_pos_lock st0)
               else checkDistanceToFirstWaypoint P N m max_distance_to_1st_waypoint st0);
            home_alt = home_position_alt N;
            st2 = st1\<lparr>has_takeoff := False, has_landing := False\<rparr>;
            (ok3, st3) = checkMissionItemValidity P N m st2;
            (ok4, st4) = checkDistancesBetweenWaypoints P m max_distance_between_waypoints st3;
            (ok5, st5) = checkGeofence P N m home_alt home_valid st4;
            (ok6, st6) = checkHomePositionAltitude P m home_alt home_alt_valid' st5;
            (ok7, st7) = checkTakeoff P N m home_alt st6;
            (ok8, st8) =
              (if vstatus_is_vtol N then checkVTOLLanding P m st7
               else if vstatus_vehicle_type N = VEHICLE_TYPE_FIXED_WING then
                 checkFixedWingLanding P N m st7
               else (True, st7\<lparr>has_landing := hasMissionLanding P m\<rparr>));
            (ok9, st9) = checkTakeoffLandAvailable N st8;
            failed = (\<not> ok1 \<or> \<not> ok3 \<or> \<not> ok4 \<or> \<not> ok5 \<or> \<not> ok6 \<or> \<not> ok7 \<or> \<not> ok8 \<or> \<not> ok9)
        in (\<not> failed, st9))"

section \<open>Euler angles from a direction cosine matrix\<close>

text \<open>\<^verbatim>\<open>Euler(const Dcm<Type> &)\<close> of \<^verbatim>\<open>matrix/Euler.hpp\<close>, a template over the scalar
  type, here at the real numbers. The vector starts as zero. \<^verbatim>\<open>asin\<close> and \<^verbatim>\<open>atan2\<close> of the
  C library are parameters; \<^verbatim>\<open>M_PI_2\<close> is \<open>pi / 2\<close>.\<close>

record euler =
  phi :: real
  theta :: real
  psi :: real

definition Euler_of_dcm ::
  "(real \<Rightarrow> real) \<Rightarrow> (real \<Rightarrow> real \<Rightarrow> real) \<Rightarrow> (nat \<Rightarrow> nat \<Rightarrow> real) \<Rightarrow> euler" where
  "Euler_of_dcm asin atan2 dcm =
     (let e0 = \<lparr>phi = 0, theta = 0, psi = 0\<rparr>;
          e1 = e0\<lparr>theta := asin (- dcm 2 0)\<rparr>
      in if \<bar>theta e1 - pi / 2\<bar> < 1 / 1000 then
           let e2 = e1\<lparr>phi := 0\<rparr>;
               e3 = e2\<lparr>psi := atan2 (dcm 0 1) (dcm 1 1)\<rparr>;
               e4 = e3\<lparr>psi := atan2 (dcm 1 2) (dcm 0 2)\<rparr>
           in e4
         else if \<bar>theta e1 + pi / 2\<bar> < 1 / 1000 then
           let e2 = e1\<lparr>phi := 0\<rparr>;
               e3 = e2\<lparr>psi := atan2 (- dcm 1 2) (- dcm 0 2)\<rparr>
           in e3
         else
           let e2 = e1\<lparr>phi := atan2 (dcm 2 1) (dcm 2 2)\<rparr>;
               e3 = e2\<lparr>psi := atan2 (dcm 1 0) (dcm 0 0)\<rparr>
           in e3)"

section \<open>Vocabulary of the statements\<close>

text \<open>The routine that sends each event.\<close>

datatype subcheck =
    Orchestrator
  | DistanceToFirstWaypoint
  | MissionItemValidity
  | DistancesBetweenWaypoints
  | Geofence
  | HomePositionAltitude
  | Takeoff
  | FixedWingLanding
  | VTOLLanding
  | TakeoffLandAvailable

fun sender :: "event \<Rightarrow> subcheck" where
  "sender Mis_no_pos_lock = Orchestrator"
| "sender Mis_geofence_no_home = Geofence"
| "sender Mis_geofence_no_home2 = Geofence"
| "sender (Mis_geofence_violation k) = Geofence"
| "sender (Mis_no_home_rel_alt k) = HomePositionAltitude"
| "sender (Mis_wp_below_home k) = HomePositionAltitude"
| "sender Mis_sd_failure = MissionItemValidity"
| "sender (Mis_unsup_cmd k c) = MissionItemValidity"
| "sender (Mis_act_index a) = MissionItemValidity"
| "sender (Mis_act_range a b) = MissionItemValidity"
| "sender Mis_starts_w_landing = MissionItemValidity"
| "sender (Mis_takeoff_too_low x) = Takeoff"
| "sender Mis_takeoff_not_first = Takeoff"
| "sender Mis_multiple_land = FixedWingLanding"
| "sender Mis_land_angle_param_missing = FixedWingLanding"
| "sender Mis_approach_wp_below_land = FixedWingLanding"
| "sender Mis_land_wp_inside_orbit_radius = FixedWingLanding"
| "sender Mis_unsupported_landing_approach_wp = FixedWingLanding"
| "sender (Mis_glide_slope_too_steep a b) = FixedWingLanding"
| "sender (Mis_correct_glide_slope a b) = FixedWingLanding"
| "sender Mis_req_landing_approach = FixedWingLanding"
| "sender Mis_starts_w_landing2 = FixedWingLanding"
| "sender Mis_land_before_rtl = FixedWingLanding"
| "sender Mis_invalid_land = FixedWingLanding"
| "sender Mis_multi_land = VTOLLanding"
| "sender Mis_starts_w_land = VTOLLanding"
| "sender Mis_land_before_rtl2 = VTOLLanding"
| "sender Mis_invalid_land2 = VTOLLanding"
| "sender Mis_takeoff_missing = TakeoffLandAvailable"
| "sender Mis_land_missing = TakeoffLandAvailable"
| "sender Mis_takeoff_or_land_missing = TakeoffLandAvailable"
| "sender Mis_add_land_or_rm_to = TakeoffLandAvailable"
| "sender Mis_add_to_or_rm_land = TakeoffLandAvailable"
| "sender Mis_storage_failure = DistanceToFirstWaypoint"
| "sender (Mis_first_wp_too_far a b) = DistanceToFirstWaypoint"
| "sender Mis_storage_failure2 = DistancesBetweenWaypoints"
| "sender (Mis_wp_dist_too_far a b) = DistancesBetweenWaypoints"
| "sender (Mis_wp_gate_too_close x y) = DistancesBetweenWaypoints"

text \<open>The events with which a distance check rejects a mission.\<close>

fun distance_fatal :: "event \<Rightarrow> bool" where
  "distance_fatal (Mis_first_wp_too_far a b) = True"
| "distance_fatal (Mis_wp_dist_too_far a b) = True"
| "distance_fatal (Mis_wp_gate_too_close x y) = True"
| "distance_fatal e = False"


text \<open>What a sub-check \<open>X\<close> that takes the state \<open>st\<close> to \<open>st'\<close> and returns \<open>r\<close> does to
  the warning flag and to the event sink: the flag is never cleared, the events are appended,
  each of them is an event of \<open>X\<close>, a passing sub-check has sent nothing but
  \<open>Mis_wp_below_home\<close>, and an event of a distance failure comes with a failure and the
  warning flag.\<close>

definition stage :: "subcheck \<Rightarrow> checker \<Rightarrow> bool \<Rightarrow> checker \<Rightarrow> bool" where
  "stage X st r st' \<longleftrightarrow>
     (warning st \<longrightarrow> warning st') \<and>
     (\<exists>es. events st' = events st @ es \<and> (\<forall>e\<in>set es. sender e = X) \<and>
        (r \<longrightarrow> (\<forall>e\<in>set es. \<exists>k. e = Mis_wp_below_home k)) \<and>
        (\<forall>e\<in>set es. distance_fatal e \<longrightarrow> warning st' \<and> \<not> r))"

text \<open>The same for a sequence of sub-checks, whose results are combined by conjunction.\<close>

definition summary :: "checker \<Rightarrow> bool \<Rightarrow> checker \<Rightarrow> bool" where
  "summary st r st' \<longleftrightarrow>
     (\<exists>es. events st' = events st @ es \<and>
        (r \<longrightarrow> (\<forall>e\<in>set es. \<exists>k. e = Mis_wp_below_home k)) \<and>
        (\<forall>e\<in>set es. distance_fatal e \<longrightarrow> warning st' \<and> \<not> r))"

text \<open>Every item of the mission can be read.\<close>

definition all_items_read :: "platform \<Rightarrow> mission \<Rightarrow> bool" where
  "all_items_read P m = list_all (\<lambda>i. dm_read P (dataman_id m) i \<noteq> None) [0..<count m]"

text \<open>The altitude above mean sea level of an item as the checker computes it: the stored
  altitude, or for a relative altitude its single-precision sum with the home altitude.
  Item \<open>i\<close> is below home when it has a position and the home altitude compares greater
  than this altitude; the events that the home altitude check sends for these items, in
  order.\<close>

definition wp_alt :: "float32 \<Rightarrow> mission_item \<Rightarrow> float32" where
  "wp_alt home_alt item =
     (if altitude_is_relative item then float_add (altitude item) home_alt else altitude item)"

definition below_home :: "platform \<Rightarrow> mission \<Rightarrow> float32 \<Rightarrow> nat \<Rightarrow> bool" where
  "below_home P m home_alt i =
     (case dm_read P (dataman_id m) i of
        None \<Rightarrow> False
      | Some item \<Rightarrow> item_contains_position P item \<and> float_gt home_alt (wp_alt home_alt item))"

definition wp_below_home_events :: "platform \<Rightarrow> mission \<Rightarrow> float32 \<Rightarrow> event list" where
  "wp_below_home_events P m home_alt =
     map (\<lambda>i. Mis_wp_below_home (word_of_nat (i + 1)))
       (filter (below_home P m home_alt) [0..<count m])"

text \<open>The quantities of the takeoff check: the takeoff commands, the takeoff altitude above
  home (a single-precision difference when the stored altitude is absolute), the acceptance
  radius that is compared with it, and the verdict on one item, the single-precision
  comparison of the source.\<close>

definition is_takeoff :: "mission_item \<Rightarrow> bool" where
  "is_takeoff item \<longleftrightarrow>
     nav_cmd item = NAV_CMD_TAKEOFF \<or> nav_cmd item = NAV_CMD_VTOL_TAKEOFF"

definition takeoff_alt_above_home :: "float32 \<Rightarrow> mission_item \<Rightarrow> float32" where
  "takeoff_alt_above_home home_alt item =
     (if altitude_is_relative item then altitude item else float_sub (altitude item) home_alt)"

definition effective_acceptance_radius :: "platform \<Rightarrow> navigator \<Rightarrow> mission_item \<Rightarrow> float32" where
  "effective_acceptance_radius P N item =
     (if float_gt (acceptance_radius item) (NAV_EPSILON_POSITION P) then acceptance_radius item
      else default_acceptance_radius N)"

definition takeoff_too_low :: "platform \<Rightarrow> navigator \<Rightarrow> float32 \<Rightarrow> mission_item \<Rightarrow> bool" where
  "takeoff_too_low P N home_alt item \<longleftrightarrow>
     is_takeoff item \<and>
     float_lt (float_sub (takeoff_alt_above_home home_alt item) (Finite 1))
       (effective_acceptance_radius P N item)"

definition takeoff_too_low_event :: "platform \<Rightarrow> navigator \<Rightarrow> mission_item \<Rightarrow> event" where
  "takeoff_too_low_event P N item =
     Mis_takeoff_too_low (float_add (effective_acceptance_radius P N item) (Finite 1))"

text \<open>The same altitudes without rounding, as real numbers.\<close>

definition exact_wp_alt :: "float32 \<Rightarrow> mission_item \<Rightarrow> real" where
  "exact_wp_alt home_alt item =
     (if altitude_is_relative item then valof (altitude item) + valof home_alt
      else valof (altitude item))"

definition exact_takeoff_alt_above_home :: "float32 \<Rightarrow> mission_item \<Rightarrow> real" where
  "exact_takeoff_alt_above_home home_alt item =
     (if altitude_is_relative item then valof (altitude item)
      else valof (altitude item) - valof home_alt)"

text \<open>Item \<open>i\<close> can be read and its command is one of \<open>cmds\<close>; the mission has such an
  item.\<close>

definition cmd_at :: "platform \<Rightarrow> mission \<Rightarrow> nav_cmd_t list \<Rightarrow> nat \<Rightarrow> bool" where
  "cmd_at P m cmds i =
     (case dm_read P (dataman_id m) i of
        None \<Rightarrow> False
      | Some item \<Rightarrow> nav_cmd item \<in> set cmds)"

definition mission_has_cmd :: "platform \<Rightarrow> mission \<Rightarrow> nav_cmd_t list \<Rightarrow> bool" where
  "mission_has_cmd P m cmds = list_ex (cmd_at P m cmds) [0..<count m]"

text \<open>The quantities of the fixed-wing landing check, each computed in single precision as
  the source computes it: the height of the entrance above the landing point, the distance
  from the centre of the orbit to the landing point, the length of the approach (the tangent
  from the orbit for a \<open>LOITER_TO_ALT\<close> entrance, the distance between the two items
  otherwise), the glide slope and its bound.\<close>

definition relative_approach_altitude :: "navigator \<Rightarrow> mission_item \<Rightarrow> mission_item \<Rightarrow> float32" where
  "relative_approach_altitude N entrance land =
     float_sub (wp_alt (home_position_alt N) entrance) (wp_alt (home_position_alt N) land)"

definition orbit_center_distance :: "platform \<Rightarrow> mission_item \<Rightarrow> mission_item \<Rightarrow> float32" where
  "orbit_center_distance P entrance land =
     get_distance_to_next_waypoint P (lat entrance) (lon entrance) (lat land) (lon land)"

definition approach_distance :: "platform \<Rightarrow> mission_item \<Rightarrow> mission_item \<Rightarrow> float32" where
  "approach_distance P entrance land =
     (if nav_cmd entrance = NAV_CMD_LOITER_TO_ALT
      then sqrtf (float_sub
                    (float_mul (orbit_center_distance P entrance land)
                       (orbit_center_distance P entrance land))
                    (float_mul (fabsf (loiter_radius entrance)) (fabsf (loiter_radius entrance))))
      else get_distance_to_next_waypoint P (lat entrance) (lon entrance) (lat land) (lon land))"

definition glide_slope :: "platform \<Rightarrow> navigator \<Rightarrow> mission_item \<Rightarrow> mission_item \<Rightarrow> float32" where
  "glide_slope P N entrance land =
     float_div (relative_approach_altitude N entrance land) (approach_distance P entrance land)"

definition max_glide_slope :: "platform \<Rightarrow> float32 \<Rightarrow> float32" where
  "max_glide_slope P fw_lnd_ang =
     tanf P (radians P (float_add fw_lnd_ang (float_round (1 / 10))))"

text \<open>What holds of a \<open>LAND\<close> item at index \<open>i\<close> that the check accepts. Each of the three
  comparisons of the source lets a NaN through: the entrance is at least \<^verbatim>\<open>FLT_EPSILON\<close>
  above the landing point or their difference is NaN; the centre of an orbit is farther from
  the landing point than the radius, or one of the two is NaN; the glide slope is at most
  its bound, or one of the two is NaN.\<close>

definition landing_ok :: "platform \<Rightarrow> navigator \<Rightarrow> mission \<Rightarrow> nat \<Rightarrow> bool" where
  "landing_ok P N m i =
     (case dm_read P (dataman_id m) i of
        None \<Rightarrow> False
      | Some land \<Rightarrow>
          nav_cmd land = NAV_CMD_LAND \<longrightarrow>
            0 < i \<and>
            (case param_FW_LND_ANG P of
               None \<Rightarrow> False
             | Some fw_lnd_ang \<Rightarrow>
                 (case dm_read P (dataman_id m) (i - 1) of
                    None \<Rightarrow> False
                  | Some entrance \<Rightarrow>
                      item_contains_position P entrance \<and>
                      (relative_approach_altitude N entrance land = NaN \<or>
                       float_le FLT_EPSILON (relative_approach_altitude N entrance land)) \<and>
                      (nav_cmd entrance = NAV_CMD_WAYPOINT \<or>
                       nav_cmd entrance = NAV_CMD_LOITER_TO_ALT \<and>
                       (orbit_center_distance P entrance land = NaN \<or>
                        fabsf (loiter_radius entrance) = NaN \<or>
                        float_gt (orbit_center_distance P entrance land)
                          (fabsf (loiter_radius entrance)))) \<and>
                      (glide_slope P N entrance land = NaN \<or>
                       max_glide_slope P fw_lnd_ang = NaN \<or>
                       float_le (glide_slope P N entrance land) (max_glide_slope P fw_lnd_ang)))))"

section \<open>Example inputs\<close>

text \<open>A storage that holds the same item list under every id.\<close>

definition storage_of :: "mission_item option list \<Rightarrow> nat \<Rightarrow> nat \<Rightarrow> mission_item option" where
  "storage_of xs sid i = (if i < length xs then xs ! i else None)"

definition example_contains_position :: "mission_item \<Rightarrow> bool" where
  "example_contains_position item =
     (nav_cmd item \<in> {NAV_CMD_WAYPOINT, NAV_CMD_LOITER_UNLIMITED, NAV_CMD_LOITER_TIME_LIMIT,
        NAV_CMD_LOITER_TO_ALT, NAV_CMD_TAKEOFF, NAV_CMD_VTOL_TAKEOFF, NAV_CMD_LAND,
        NAV_CMD_VTOL_LAND, NAV_CMD_RETURN_TO_LAUNCH})"

text \<open>A distance for the examples: the sum of the differences of the two coordinates.\<close>

definition example_distance :: "float64 \<Rightarrow> float64 \<Rightarrow> float64 \<Rightarrow> float64 \<Rightarrow> float32" where
  "example_distance lat_now lon_now lat_next lon_next =
     float_add (fabsf (float_sub lat_next lat_now)) (fabsf (float_sub lon_next lon_now))"

text \<open>The conversion to radians is the product with the binary32 value nearest to
  \<open>pi / 180\<close>. The tangent is needed at one argument only, the product of that value with
  \<^verbatim>\<open>5.0f + 0.1f\<close>; the table holds the binary32 value nearest to the tangent there.\<close>

definition example_radians :: "float32 \<Rightarrow> float32" where
  "example_radians degrees = float_mul degrees (Finite (9370165 / 2 ^ 29))"

definition example_tanf :: "float32 \<Rightarrow> float32" where
  "example_tanf x = (if x = Finite (746685 / 2 ^ 23) then Finite (11978613 / 2 ^ 27) else NaN)"

text \<open>The platform of the examples: \<^verbatim>\<open>FW_LND_ANG\<close> is 5 degrees, \<^verbatim>\<open>NAV_EPSILON_POSITION\<close>
  is \<^verbatim>\<open>0.001f\<close>.\<close>

definition example_platform :: "mission_item option list \<Rightarrow> platform" where
  "example_platform xs =
     \<lparr>dm_read = storage_of xs, item_contains_position = example_contains_position,
      get_distance_to_next_waypoint = example_distance, param_FW_LND_ANG = Some (Finite 5),
      NAV_EPSILON_POSITION = float_round (1 / 1000), PWM_DEFAULT_MAX = 2000,
      tanf = example_tanf, radians = example_radians\<rparr>"

definition example_navigator :: navigator where
  "example_navigator =
     \<lparr>home_global_position_valid = True, home_alt_valid = True,
      home_position_lat = Finite 0, home_position_lon = Finite 0, home_position_alt = Finite 488,
      vstatus_is_vtol = False, vstatus_vehicle_type = VEHICLE_TYPE_ROTARY_WING,
      land_detected_landed = False, takeoff_land_required = 0,
      default_acceptance_radius = Finite 2, geofence_isHomeRequired = False,
      geofence_valid = False, geofence_check = (\<lambda>item. True)\<rparr>"

text \<open>An item with finite coordinates and a finite altitude relative to home.\<close>

definition example_item :: "nav_cmd_t \<Rightarrow> real \<Rightarrow> real \<Rightarrow> real \<Rightarrow> mission_item" where
  "example_item cmd la lo alt =
     \<lparr>nav_cmd = cmd, lat = Finite la, lon = Finite lo, altitude = Finite alt,
      altitude_is_relative = True, acceptance_radius = Finite 2, loiter_radius = Finite 0,
      params = (\<lambda>k. Finite 0)\<rparr>"

definition example_mission :: "nat \<Rightarrow> mission" where
  "example_mission n = \<lparr>dataman_id = 0, count = n\<rparr>"

definition fresh_checker :: checker where
  "fresh_checker = \<lparr>warning = False, has_takeoff = False, has_landing = False, events = []\<rparr>"

text \<open>A waypoint, an idle item and a takeoff, in this order.\<close>

definition waypoint_idle_takeoff :: "mission_item option list" where
  "waypoint_idle_takeoff =
     [Some (example_item NAV_CMD_WAYPOINT 0 0 5), Some (example_item NAV_CMD_IDLE 0 0 0),
      Some (example_item NAV_CMD_TAKEOFF 0 0 10)]"

text \<open>The two-argument arctangent on the reals and a direction cosine matrix of pitch
  \<open>pi / 2\<close> with zero roll and yaw, for the examples of the Euler constructor.\<close>

definition atan2_real :: "real \<Rightarrow> real \<Rightarrow> real" where
  "atan2_real y x =
     (if 0 < x then arctan (y / x)
      else if x < 0 \<and> 0 \<le> y then arctan (y / x) + pi
      else if x < 0 then arctan (y / x) - pi
      else if 0 < y then pi / 2
      else if y < 0 then - (pi / 2)
      else 0)"

definition example_dcm :: "nat \<Rightarrow> nat \<Rightarrow> real" where
  "example_dcm i j =
     (if i = 0 \<and> j = 2 then 1 else if i = 1 \<and> j = 1 then 1
      else if i = 2 \<and> j = 0 then - 1 else 0)"

text \<open>A takeoff, a waypoint five metres below home and a landing.\<close>

definition takeoff_low_waypoint_land :: "mission_item option list" where
  "takeoff_low_waypoint_land =
     [Some (example_item NAV_CMD_TAKEOFF 0 0 10), Some (example_item NAV_CMD_WAYPOINT 1 1 (- 5)),
      Some (example_item NAV_CMD_LAND 2 2 0)]"

text \<open>A single waypoint at distance 1000 from home; two waypoints at distance 1000 from each
  other, the first at home.\<close>

definition far_waypoint :: "mission_item option list" where
  "far_waypoint = [Some (example_item NAV_CMD_WAYPOINT 1000 0 10)]"

definition distant_waypoints :: "mission_item option list" where
  "distant_waypoints =
     [Some (example_item NAV_CMD_WAYPOINT 0 0 10), Some (example_item NAV_CMD_WAYPOINT 1000 0 10)]"

text \<open>A waypoint before a takeoff to 10 metres above home with an acceptance radius of 10
  metres. Two takeoffs to 10 metres above home, with acceptance radius 10 and 20. A takeoff
  to the absolute altitude \<^verbatim>\<open>3.1f\<close> with acceptance radius 2, for the home altitude
  \<^verbatim>\<open>0.1f\<close>.\<close>

definition waypoint_low_takeoff :: "mission_item option list" where
  "waypoint_low_takeoff =
     [Some (example_item NAV_CMD_WAYPOINT 0 0 5),
      Some ((example_item NAV_CMD_TAKEOFF 0 0 10)\<lparr>acceptance_radius := Finite 10\<rparr>)]"

definition two_low_takeoffs :: "mission_item option list" where
  "two_low_takeoffs =
     [Some ((example_item NAV_CMD_TAKEOFF 0 0 10)\<lparr>acceptance_radius := Finite 10\<rparr>),
      Some ((example_item NAV_CMD_TAKEOFF 0 0 10)\<lparr>acceptance_radius := Finite 20\<rparr>)]"

definition absolute_takeoff :: mission_item where
  "absolute_takeoff =
     (example_item NAV_CMD_TAKEOFF 0 0 0)
       \<lparr>altitude := float_round (31 / 10), altitude_is_relative := False\<rparr>"

text \<open>A waypoint whose altitude relative to home is \<open>- (1 / 2 ^ 20)\<close>.\<close>

definition waypoint_just_below_home :: mission_item where
  "waypoint_just_below_home = example_item NAV_CMD_WAYPOINT 0 0 (- (1 / 2 ^ 20))"

text \<open>A takeoff, a waypoint and a VTOL landing.\<close>

definition takeoff_waypoint_vtol_land :: "mission_item option list" where
  "takeoff_waypoint_vtol_land =
     [Some (example_item NAV_CMD_TAKEOFF 0 0 10), Some (example_item NAV_CMD_WAYPOINT 1 1 10),
      Some (example_item NAV_CMD_VTOL_LAND 2 2 0)]"






section \<open>Rules for evaluating the checker on the examples\<close>

lemmas float_defs =
  signed_zero_def signed_inf_def round_half_even_def ulp_exponent_def round_to_ulp_def
  float_of_scaled_def float_round_def float_add_def float_sub_def float_mul_def float_div_def
  float_gt_def float_le_def float_of_int_def

lemmas loop_simps =
  checkGeofence_loop.simps checkHomePositionAltitude_loop.simps
  checkMissionItemValidity_loop.simps checkTakeoff_loop1.simps checkTakeoff_loop2.simps
  hasMissionLanding_loop.simps checkFixedWingLanding_loop.simps checkVTOLLanding_loop.simps
  checkDistanceToFirstWaypoint_loop.simps checkDistancesBetweenWaypoints_loop.simps

lemmas check_defs =
  checkGeofence_def checkHomePositionAltitude_def checkMissionItemValidity_def checkTakeoff_def
  hasMissionLanding_def checkFixedWingLanding_def checkVTOLLanding_def
  checkTakeoffLandAvailable_def checkDistanceToFirstWaypoint_def
  checkDistancesBetweenWaypoints_def checkMissionFeasible_def

lemmas example_defs =
  example_platform_def example_navigator_def example_mission_def example_item_def
  example_contains_position_def example_distance_def example_radians_def example_tanf_def
  storage_of_def fresh_checker_def send_def

lemmas takeoff_defs =
  is_takeoff_def takeoff_alt_above_home_def effective_acceptance_radius_def takeoff_too_low_def
  takeoff_too_low_event_def

lemmas glide_defs =
  wp_alt_def relative_approach_altitude_def orbit_center_distance_def approach_distance_def
  glide_slope_def max_glide_slope_def landing_ok_def

lemmas vocab_defs =
  all_items_read_def below_home_def wp_below_home_events_def takeoff_defs cmd_at_def
  mission_has_cmd_def glide_defs FLT_EPSILON_def exact_wp_alt_def
  exact_takeoff_alt_above_home_def is_binary32_def

section \<open>What the loops leave unchanged\<close>

text \<open>Each lemma is proved by induction on the number of iterations that remain. A loop that
  returns from inside returns failure; the warning flag and the members that the loop does not
  own keep their values, and the events sent are events of the enclosing sub-check.\<close>

lemma checkGeofence_loop_frame:
  "checkGeofence_loop P N m home_alt home_valid i st = (r, st') \<Longrightarrow>
     warning st' = warning st \<and> has_takeoff st' = has_takeoff st \<and> has_landing st' = has_landing st \<and>
     (\<exists>es. events st' = events st @ es \<and> (\<forall>e\<in>set es. sender e = Geofence) \<and>
        (r \<longrightarrow> es = []))"
proof (induction "count m - i" arbitrary: i st home_valid)
  case 0
  then show ?case
    by (subst (asm) checkGeofence_loop.simps) clarsimp
next
  case (Suc n)
  note IH = Suc.hyps(1) [rotated]
  from Suc.prems Suc.hyps(2) show ?case
    by (subst (asm) checkGeofence_loop.simps)
       (clarsimp simp: send_def Let_def split: if_split_asm option.split_asm;
        (drule IH, arith, clarsimp))
qed

lemma checkHomePositionAltitude_loop_frame:
  "checkHomePositionAltitude_loop P m home_alt hv i st = (r, st') \<Longrightarrow>
     (warning st \<longrightarrow> warning st') \<and> has_takeoff st' = has_takeoff st \<and> has_landing st' = has_landing st \<and>
     (\<exists>es. events st' = events st @ es \<and> (\<forall>e\<in>set es. sender e = HomePositionAltitude) \<and>
        (r \<longrightarrow> (\<forall>e\<in>set es. \<exists>k. e = Mis_wp_below_home k)))"
proof (induction "count m - i" arbitrary: i st hv)
  case 0
  then show ?case
    by (subst (asm) checkHomePositionAltitude_loop.simps) clarsimp
next
  case (Suc n)
  note IH = Suc.hyps(1) [rotated]
  from Suc.prems Suc.hyps(2) show ?case
    by (subst (asm) checkHomePositionAltitude_loop.simps)
       (clarsimp simp: send_def Let_def split: if_split_asm option.split_asm;
        (drule IH, arith, clarsimp))
qed

lemma checkMissionItemValidity_loop_frame:
  "checkMissionItemValidity_loop P N m i st = (r, st') \<Longrightarrow>
     warning st' = warning st \<and> has_takeoff st' = has_takeoff st \<and> has_landing st' = has_landing st \<and>
     (\<exists>es. events st' = events st @ es \<and> (\<forall>e\<in>set es. sender e = MissionItemValidity) \<and>
        (r \<longrightarrow> es = []))"
proof (induction "count m - i" arbitrary: i st)
  case 0
  then show ?case
    by (subst (asm) checkMissionItemValidity_loop.simps) clarsimp
next
  case (Suc n)
  note IH = Suc.hyps(1) [rotated]
  from Suc.prems Suc.hyps(2) show ?case
    by (subst (asm) checkMissionItemValidity_loop.simps)
       (clarsimp simp: send_def Let_def split: if_split_asm option.split_asm;
        (drule IH, arith, clarsimp))
qed

lemma checkDistanceToFirstWaypoint_loop_frame:
  "checkDistanceToFirstWaypoint_loop P N m max_distance i st = (r, st') \<Longrightarrow>
     (warning st \<longrightarrow> warning st') \<and> has_takeoff st' = has_takeoff st \<and> has_landing st' = has_landing st \<and>
     (\<exists>es. events st' = events st @ es \<and> (\<forall>e\<in>set es. sender e = DistanceToFirstWaypoint) \<and>
        (r \<longrightarrow> es = []) \<and>
        (\<forall>e\<in>set es. distance_fatal e \<longrightarrow> warning st'))"
proof (induction "count m - i" arbitrary: i st)
  case 0
  then show ?case
    by (subst (asm) checkDistanceToFirstWaypoint_loop.simps) clarsimp
next
  case (Suc n)
  note IH = Suc.hyps(1) [rotated]
  from Suc.prems Suc.hyps(2) show ?case
    by (subst (asm) checkDistanceToFirstWaypoint_loop.simps)
       (clarsimp simp: send_def Let_def split: if_split_asm option.split_asm;
        (drule IH, arith, clarsimp))
qed

lemma checkDistancesBetweenWaypoints_loop_frame:
  "checkDistancesBetweenWaypoints_loop P m max_distance i last_lat last_lon last_cmd st = (r, st') \<Longrightarrow>
     (warning st \<longrightarrow> warning st') \<and> has_takeoff st' = has_takeoff st \<and> has_landing st' = has_landing st \<and>
     (\<exists>es. events st' = events st @ es \<and> (\<forall>e\<in>set es. sender e = DistancesBetweenWaypoints) \<and>
        (r \<longrightarrow> es = []) \<and>
        (\<forall>e\<in>set es. distance_fatal e \<longrightarrow> warning st'))"
proof (induction "count m - i" arbitrary: i st last_lat last_lon last_cmd)
  case 0
  then show ?case
    by (subst (asm) checkDistancesBetweenWaypoints_loop.simps) clarsimp
next
  case (Suc n)
  note IH = Suc.hyps(1) [rotated]
  from Suc.prems Suc.hyps(2) show ?case
    by (subst (asm) checkDistancesBetweenWaypoints_loop.simps)
       (clarsimp simp: send_def Let_def split: if_split_asm option.split_asm;
        (drule IH, arith, clarsimp))
qed

lemma checkTakeoff_loop1_Inl:
  "checkTakeoff_loop1 P N m home_alt i tf ti st = Inl (r, st') \<Longrightarrow>
     \<not> r \<and> warning st' = warning st \<and> has_landing st' = has_landing st \<and>
     (\<exists>es. events st' = events st @ es \<and> (\<forall>e\<in>set es. sender e = Takeoff))"
proof (induction "count m - i" arbitrary: i st tf ti)
  case 0
  then show ?case
    by (subst (asm) checkTakeoff_loop1.simps) clarsimp
next
  case (Suc n)
  note IH = Suc.hyps(1) [rotated]
  from Suc.prems Suc.hyps(2) show ?case
    by (subst (asm) checkTakeoff_loop1.simps)
       (clarsimp simp: send_def Let_def split: if_split_asm option.split_asm;
        (drule IH, arith, clarsimp))
qed

lemma checkTakeoff_loop1_Inr:
  "checkTakeoff_loop1 P N m home_alt i tf ti st = Inr (tf', ti', st') \<Longrightarrow>
     warning st' = warning st \<and> has_landing st' = has_landing st \<and> events st' = events st"
proof (induction "count m - i" arbitrary: i st tf ti)
  case 0
  then show ?case
    by (subst (asm) checkTakeoff_loop1.simps) clarsimp
next
  case (Suc n)
  note IH = Suc.hyps(1) [rotated]
  from Suc.prems Suc.hyps(2) show ?case
    by (subst (asm) checkTakeoff_loop1.simps)
       (clarsimp simp: send_def Let_def split: if_split_asm option.split_asm;
        (drule IH, arith, clarsimp))
qed

lemma checkTakeoff_loop2_Inl:
  "checkTakeoff_loop2 P m ti i tf st = Inl (r, st') \<Longrightarrow>
     \<not> r \<and> st' = st"
proof (induction "nat ti - i" arbitrary: i tf)
  case 0
  then show ?case
    by (subst (asm) checkTakeoff_loop2.simps) clarsimp
next
  case (Suc n)
  note IH = Suc.hyps(1) [rotated]
  from Suc.prems Suc.hyps(2) show ?case
    by (subst (asm) checkTakeoff_loop2.simps)
       (clarsimp simp: send_def Let_def split: if_split_asm option.split_asm;
        (drule IH, arith, clarsimp))
qed

lemma checkVTOLLanding_loop_Inl:
  "checkVTOLLanding_loop P m i dlsi lai st = Inl (r, st') \<Longrightarrow>
     \<not> r \<and> warning st' = warning st \<and> has_takeoff st' = has_takeoff st \<and>
     (\<exists>es. events st' = events st @ es \<and> (\<forall>e\<in>set es. sender e = VTOLLanding))"
proof (induction "count m - i" arbitrary: i st dlsi lai)
  case 0
  then show ?case
    by (subst (asm) checkVTOLLanding_loop.simps) clarsimp
next
  case (Suc n)
  note IH = Suc.hyps(1) [rotated]
  from Suc.prems Suc.hyps(2) show ?case
    by (subst (asm) checkVTOLLanding_loop.simps)
       (clarsimp simp: send_def Let_def split: if_split_asm option.split_asm;
        (drule IH, arith, clarsimp))
qed

lemma checkVTOLLanding_loop_Inr:
  "checkVTOLLanding_loop P m i dlsi lai st = Inr (dlsi', lai', st') \<Longrightarrow>
     warning st' = warning st \<and> has_takeoff st' = has_takeoff st \<and> events st' = events st"
proof (induction "count m - i" arbitrary: i st dlsi lai)
  case 0
  then show ?case
    by (subst (asm) checkVTOLLanding_loop.simps) clarsimp
next
  case (Suc n)
  note IH = Suc.hyps(1) [rotated]
  from Suc.prems Suc.hyps(2) show ?case
    by (subst (asm) checkVTOLLanding_loop.simps)
       (clarsimp simp: send_def Let_def split: if_split_asm option.split_asm;
        (drule IH, arith, clarsimp))
qed

lemma checkFixedWingLanding_loop_Inl:
  "checkFixedWingLanding_loop P N m i lv dlsi lai st = Inl (r, st') \<Longrightarrow>
     \<not> r \<and> warning st' = warning st \<and> has_takeoff st' = has_takeoff st \<and>
     (\<exists>es. events st' = events st @ es \<and> (\<forall>e\<in>set es. sender e = FixedWingLanding))"
proof (induction "count m - i" arbitrary: i st lv dlsi lai)
  case 0
  then show ?case
    by (subst (asm) checkFixedWingLanding_loop.simps) clarsimp
next
  case (Suc n)
  note IH = Suc.hyps(1) [rotated]
  from Suc.prems Suc.hyps(2) show ?case
    by (subst (asm) checkFixedWingLanding_loop.simps)
       (clarsimp simp: send_def Let_def split: if_split_asm option.split_asm sum.split_asm;
        (drule IH, arith, clarsimp))
qed

lemma checkFixedWingLanding_loop_Inr:
  "checkFixedWingLanding_loop P N m i lv dlsi lai st = Inr (lv', dlsi', lai', st') \<Longrightarrow>
     warning st' = warning st \<and> has_takeoff st' = has_takeoff st \<and> events st' = events st"
proof (induction "count m - i" arbitrary: i st lv dlsi lai)
  case 0
  then show ?case
    by (subst (asm) checkFixedWingLanding_loop.simps) clarsimp
next
  case (Suc n)
  note IH = Suc.hyps(1) [rotated]
  from Suc.prems Suc.hyps(2) show ?case
    by (subst (asm) checkFixedWingLanding_loop.simps)
       (clarsimp simp: send_def Let_def split: if_split_asm option.split_asm sum.split_asm;
        (drule IH, arith, clarsimp))
qed

section \<open>The sub-checks as stages\<close>

lemma distance_fatal_sender:
  "distance_fatal e \<Longrightarrow>
     sender e = DistanceToFirstWaypoint \<or> sender e = DistancesBetweenWaypoints"
  by (cases e) simp_all

lemma stage_quiet:
  assumes "warning st \<longrightarrow> warning st'"
    and "\<exists>es. events st' = events st @ es \<and> (\<forall>e\<in>set es. sender e = X) \<and> (r \<longrightarrow> es = [])"
    and "X \<noteq> DistanceToFirstWaypoint" and "X \<noteq> DistancesBetweenWaypoints"
  shows "stage X st r st'"
proof -
  from assms(2) obtain es where es: "events st' = events st @ es"
    "\<forall>e\<in>set es. sender e = X" "r \<longrightarrow> es = []" by blast
  have "\<forall>e\<in>set es. \<not> distance_fatal e"
    using es(2) assms(3,4) distance_fatal_sender by fastforce
  with es assms(1) show ?thesis
    unfolding stage_def by (intro conjI exI [of _ es]) auto
qed

lemma stage_distance:
  assumes "warning st \<longrightarrow> warning st'"
    and "\<exists>es. events st' = events st @ es \<and> (\<forall>e\<in>set es. sender e = X) \<and> (r \<longrightarrow> es = []) \<and>
           (\<forall>e\<in>set es. distance_fatal e \<longrightarrow> warning st')"
  shows "stage X st r st'"
proof -
  from assms(2) obtain es where es: "events st' = events st @ es"
    "\<forall>e\<in>set es. sender e = X" "r \<longrightarrow> es = []"
    "\<forall>e\<in>set es. distance_fatal e \<longrightarrow> warning st'" by blast
  with assms(1) show ?thesis
    unfolding stage_def by (intro conjI exI [of _ es]) auto
qed

lemma checkGeofence_frame:
  assumes "checkGeofence P N m home_alt home_valid st = (r, st')"
  shows "has_landing st' = has_landing st" and "stage Geofence st r st'"
proof -
  have *: "warning st' = warning st \<and> has_takeoff st' = has_takeoff st \<and>
     has_landing st' = has_landing st \<and>
     (\<exists>es. events st' = events st @ es \<and> (\<forall>e\<in>set es. sender e = Geofence) \<and> (r \<longrightarrow> es = []))"
    using assms
    by (auto simp: checkGeofence_def send_def split: if_split_asm
             dest!: checkGeofence_loop_frame)
  then show "has_landing st' = has_landing st" by simp
  from * show "stage Geofence st r st'" by (intro stage_quiet) simp_all
qed

lemma checkHomePositionAltitude_frame:
  assumes "checkHomePositionAltitude P m home_alt hv st = (r, st')"
  shows "has_landing st' = has_landing st" and "stage HomePositionAltitude st r st'"
proof -
  note * = checkHomePositionAltitude_loop_frame
    [OF assms [unfolded checkHomePositionAltitude_def]]
  then show "has_landing st' = has_landing st" by simp
  from * obtain es where es: "events st' = events st @ es"
    "\<forall>e\<in>set es. sender e = HomePositionAltitude"
    "r \<longrightarrow> (\<forall>e\<in>set es. \<exists>k. e = Mis_wp_below_home k)" by blast
  have "\<forall>e\<in>set es. \<not> distance_fatal e"
    using es(2) distance_fatal_sender by fastforce
  with es * show "stage HomePositionAltitude st r st'"
    unfolding stage_def by (intro conjI exI [of _ es]) auto
qed

lemma checkMissionItemValidity_frame:
  assumes "checkMissionItemValidity P N m st = (r, st')"
  shows "has_landing st' = has_landing st" and "stage MissionItemValidity st r st'"
proof -
  note * = checkMissionItemValidity_loop_frame
    [OF assms [unfolded checkMissionItemValidity_def]]
  then show "has_landing st' = has_landing st" by simp
  from * show "stage MissionItemValidity st r st'" by (intro stage_quiet) simp_all
qed

lemma checkDistanceToFirstWaypoint_frame:
  assumes "checkDistanceToFirstWaypoint P N m max_distance st = (r, st')"
  shows "stage DistanceToFirstWaypoint st r st'"
proof (cases "float_le max_distance (Finite 0)")
  case True
  with assms have "r" "st' = st" by (simp_all add: checkDistanceToFirstWaypoint_def)
  then show ?thesis by (intro stage_distance) simp_all
next
  case False
  with assms have "checkDistanceToFirstWaypoint_loop P N m max_distance 0 st = (r, st')"
    by (simp add: checkDistanceToFirstWaypoint_def)
  from checkDistanceToFirstWaypoint_loop_frame [OF this] show ?thesis
    by (intro stage_distance) simp_all
qed

lemma checkDistancesBetweenWaypoints_frame:
  assumes "checkDistancesBetweenWaypoints P m max_distance st = (r, st')"
  shows "has_landing st' = has_landing st" and "stage DistancesBetweenWaypoints st r st'"
proof -
  have *: "(warning st \<longrightarrow> warning st') \<and> has_takeoff st' = has_takeoff st \<and>
     has_landing st' = has_landing st \<and>
     (\<exists>es. events st' = events st @ es \<and> (\<forall>e\<in>set es. sender e = DistancesBetweenWaypoints) \<and>
        (r \<longrightarrow> es = []) \<and> (\<forall>e\<in>set es. distance_fatal e \<longrightarrow> warning st'))"
    using assms
    by (auto simp: checkDistancesBetweenWaypoints_def split: if_split_asm
             dest!: checkDistancesBetweenWaypoints_loop_frame)
  then show "has_landing st' = has_landing st" by simp
  from * show "stage DistancesBetweenWaypoints st r st'" by (intro stage_distance) simp_all
qed

lemma checkTakeoff_frame:
  assumes "checkTakeoff P N m home_alt st = (r, st')"
  shows "has_landing st' = has_landing st" and "stage Takeoff st r st'"
proof -
  have *: "warning st' = warning st \<and> has_landing st' = has_landing st \<and>
     (\<exists>es. events st' = events st @ es \<and> (\<forall>e\<in>set es. sender e = Takeoff) \<and> (r \<longrightarrow> es = []))"
  proof (cases "checkTakeoff_loop1 P N m home_alt 0 False (- 1) st")
    case (Inl a)
    with assms have "checkTakeoff_loop1 P N m home_alt 0 False (- 1) st = Inl (r, st')"
      by (simp add: checkTakeoff_def)
    from checkTakeoff_loop1_Inl [OF this] show ?thesis by auto
  next
    case (Inr b)
    then obtain tf ti st1 where
      l1: "checkTakeoff_loop1 P N m home_alt 0 False (- 1) st = Inr (tf, ti, st1)"
      by (cases b) auto
    note f1 = checkTakeoff_loop1_Inr [OF l1]
    show ?thesis
    proof (cases "if ti \<noteq> - 1 then checkTakeoff_loop2 P m ti 0 tf st1 else Inr tf")
      case (Inl c)
      with assms l1 have r: "c = (r, st')" by (simp add: checkTakeoff_def)
      with Inl have "checkTakeoff_loop2 P m ti 0 tf st1 = Inl (r, st')"
        by (simp split: if_split_asm)
      from checkTakeoff_loop2_Inl [OF this] f1 show ?thesis by simp
    next
      case (Inr tf')
      with assms l1 f1 show ?thesis
        by (auto simp: checkTakeoff_def send_def split: if_split_asm)
    qed
  qed
  then show "has_landing st' = has_landing st" by simp
  from * show "stage Takeoff st r st'" by (intro stage_quiet) simp_all
qed

lemma checkVTOLLanding_frame:
  assumes "checkVTOLLanding P m st = (r, st')"
  shows "stage VTOLLanding st r st'"
proof -
  have *: "warning st' = warning st \<and>
     (\<exists>es. events st' = events st @ es \<and> (\<forall>e\<in>set es. sender e = VTOLLanding) \<and> (r \<longrightarrow> es = []))"
  proof (cases "checkVTOLLanding_loop P m 0 0 0 st")
    case (Inl a)
    with assms have "checkVTOLLanding_loop P m 0 0 0 st = Inl (r, st')"
      by (simp add: checkVTOLLanding_def)
    from checkVTOLLanding_loop_Inl [OF this] show ?thesis by auto
  next
    case (Inr b)
    then obtain d l st1 where
      l1: "checkVTOLLanding_loop P m 0 0 0 st = Inr (d, l, st1)"
      by (cases b) auto
    from checkVTOLLanding_loop_Inr [OF l1] assms l1 show ?thesis
      by (auto simp: checkVTOLLanding_def send_def split: if_split_asm)
  qed
  then show "stage VTOLLanding st r st'" by (intro stage_quiet) simp_all
qed

lemma checkFixedWingLanding_frame:
  assumes "checkFixedWingLanding P N m st = (r, st')"
  shows "stage FixedWingLanding st r st'"
proof -
  have *: "warning st' = warning st \<and>
     (\<exists>es. events st' = events st @ es \<and> (\<forall>e\<in>set es. sender e = FixedWingLanding) \<and>
        (r \<longrightarrow> es = []))"
  proof (cases "checkFixedWingLanding_loop P N m 0 False 0 0 st")
    case (Inl a)
    with assms have "checkFixedWingLanding_loop P N m 0 False 0 0 st = Inl (r, st')"
      by (simp add: checkFixedWingLanding_def)
    from checkFixedWingLanding_loop_Inl [OF this] show ?thesis by auto
  next
    case (Inr b)
    then obtain lv d l st1 where
      l1: "checkFixedWingLanding_loop P N m 0 False 0 0 st = Inr (lv, d, l, st1)"
      by (cases b) auto
    from checkFixedWingLanding_loop_Inr [OF l1] assms l1 show ?thesis
      by (auto simp: checkFixedWingLanding_def send_def split: if_split_asm)
  qed
  then show "stage FixedWingLanding st r st'" by (intro stage_quiet) simp_all
qed

lemma checkTakeoffLandAvailable_frame:
  assumes "checkTakeoffLandAvailable N st = (r, st')"
  shows "has_landing st' = has_landing st" and "stage TakeoffLandAvailable st r st'"
proof -
  from assms have *: "warning st' = warning st \<and> has_landing st' = has_landing st \<and>
     (\<exists>es. events st' = events st @ es \<and> (\<forall>e\<in>set es. sender e = TakeoffLandAvailable) \<and>
        (r \<longrightarrow> es = []))"
    by (auto simp: checkTakeoffLandAvailable_def send_def Let_def split: if_split_asm)
  then show "has_landing st' = has_landing st" by simp
  from * show "stage TakeoffLandAvailable st r st'" by (intro stage_quiet) simp_all
qed

section \<open>The orchestrator as a sequence of stages\<close>

lemma summary_same_events:
  "events st' = events st \<Longrightarrow> summary st True st'"
  by (simp add: summary_def)

lemma summary_update:
  "summary a r b \<Longrightarrow> events b' = events b \<Longrightarrow> warning b' = warning b \<Longrightarrow> summary a r b'"
  by (simp add: summary_def)

lemma summary_seq:
  assumes "summary a r1 b" and "stage X b r2 c"
  shows "summary a (r1 \<and> r2) c"
proof -
  from assms(1) obtain es1 where es1: "events b = events a @ es1"
    "r1 \<longrightarrow> (\<forall>e\<in>set es1. \<exists>k. e = Mis_wp_below_home k)"
    "\<forall>e\<in>set es1. distance_fatal e \<longrightarrow> warning b \<and> \<not> r1"
    unfolding summary_def by blast
  from assms(2) obtain es2 where es2: "events c = events b @ es2"
    "r2 \<longrightarrow> (\<forall>e\<in>set es2. \<exists>k. e = Mis_wp_below_home k)"
    "\<forall>e\<in>set es2. distance_fatal e \<longrightarrow> warning c \<and> \<not> r2"
    and mono: "warning b \<longrightarrow> warning c"
    unfolding stage_def by blast
  have "events c = events a @ (es1 @ es2)"
    using es1(1) es2(1) by simp
  moreover have "r1 \<and> r2 \<longrightarrow> (\<forall>e\<in>set (es1 @ es2). \<exists>k. e = Mis_wp_below_home k)"
    using es1(2) es2(2) by auto
  moreover have "\<forall>e\<in>set (es1 @ es2). distance_fatal e \<longrightarrow> warning c \<and> \<not> (r1 \<and> r2)"
    using es1(3) es2(3) mono by auto
  ultimately show ?thesis
    unfolding summary_def by blast
qed

lemma checkMissionFeasible_stages:
  assumes "0 < count m"
  obtains ok1 st1 ok3 st3 ok4 st4 ok5 st5 ok6 st6 ok7 st7 ok8 st8 ok9 st9 where
    "(if \<not> home_alt_valid N then (False, send Mis_no_pos_lock (st\<lparr>warning := False\<rparr>))
      else checkDistanceToFirstWaypoint P N m d1 (st\<lparr>warning := False\<rparr>)) = (ok1, st1)"
    "checkMissionItemValidity P N m (st1\<lparr>has_takeoff := False, has_landing := False\<rparr>)
       = (ok3, st3)"
    "checkDistancesBetweenWaypoints P m d2 st3 = (ok4, st4)"
    "checkGeofence P N m (home_position_alt N) (home_global_position_valid N) st4 = (ok5, st5)"
    "checkHomePositionAltitude P m (home_position_alt N) (home_alt_valid N) st5 = (ok6, st6)"
    "checkTakeoff P N m (home_position_alt N) st6 = (ok7, st7)"
    "(if vstatus_is_vtol N then checkVTOLLanding P m st7
      else if vstatus_vehicle_type N = VEHICLE_TYPE_FIXED_WING
           then checkFixedWingLanding P N m st7
           else (True, st7\<lparr>has_landing := hasMissionLanding P m\<rparr>)) = (ok8, st8)"
    "checkTakeoffLandAvailable N st8 = (ok9, st9)"
    "checkMissionFeasible P N m d1 d2 st
       = (ok1 \<and> ok3 \<and> ok4 \<and> ok5 \<and> ok6 \<and> ok7 \<and> ok8 \<and> ok9, st9)"
proof -
  obtain ok1 st1 where s1:
    "(if \<not> home_alt_valid N then (False, send Mis_no_pos_lock (st\<lparr>warning := False\<rparr>))
      else checkDistanceToFirstWaypoint P N m d1 (st\<lparr>warning := False\<rparr>)) = (ok1, st1)"
    by (rule prod.exhaust)
  obtain ok3 st3 where s3:
    "checkMissionItemValidity P N m (st1\<lparr>has_takeoff := False, has_landing := False\<rparr>)
       = (ok3, st3)" by (rule prod.exhaust)
  obtain ok4 st4 where s4: "checkDistancesBetweenWaypoints P m d2 st3 = (ok4, st4)"
    by (rule prod.exhaust)
  obtain ok5 st5 where s5:
    "checkGeofence P N m (home_position_alt N) (home_global_position_valid N) st4 = (ok5, st5)"
    by (rule prod.exhaust)
  obtain ok6 st6 where s6:
    "checkHomePositionAltitude P m (home_position_alt N) (home_alt_valid N) st5 = (ok6, st6)"
    by (rule prod.exhaust)
  obtain ok7 st7 where s7: "checkTakeoff P N m (home_position_alt N) st6 = (ok7, st7)"
    by (rule prod.exhaust)
  obtain ok8 st8 where s8:
    "(if vstatus_is_vtol N then checkVTOLLanding P m st7
      else if vstatus_vehicle_type N = VEHICLE_TYPE_FIXED_WING
           then checkFixedWingLanding P N m st7
           else (True, st7\<lparr>has_landing := hasMissionLanding P m\<rparr>)) = (ok8, st8)"
    by (rule prod.exhaust)
  obtain ok9 st9 where s9: "checkTakeoffLandAvailable N st8 = (ok9, st9)"
    by (rule prod.exhaust)
  have "checkMissionFeasible P N m d1 d2 st
       = (ok1 \<and> ok3 \<and> ok4 \<and> ok5 \<and> ok6 \<and> ok7 \<and> ok8 \<and> ok9, st9)"
    unfolding checkMissionFeasible_def Let_def
    using assms s1 s3 s4 s5 s6 s7 s8 s9 by auto
  with s1 s3 s4 s5 s6 s7 s8 s9 show ?thesis by (rule that)
qed

lemma checkMissionFeasible_summary:
  assumes "checkMissionFeasible P N m d1 d2 st = (r, st')"
  shows "summary st r st'"
proof (cases "count m = 0")
  case True
  with assms show ?thesis
    by (auto simp: checkMissionFeasible_def summary_def)
next
  case False
  then have "0 < count m" by simp
  then obtain ok1 st1 ok3 st3 ok4 st4 ok5 st5 ok6 st6 ok7 st7 ok8 st8 ok9 st9 where
    s1: "(if \<not> home_alt_valid N then (False, send Mis_no_pos_lock (st\<lparr>warning := False\<rparr>))
      else checkDistanceToFirstWaypoint P N m d1 (st\<lparr>warning := False\<rparr>)) = (ok1, st1)"
    and s3: "checkMissionItemValidity P N m (st1\<lparr>has_takeoff := False, has_landing := False\<rparr>)
       = (ok3, st3)"
    and s4: "checkDistancesBetweenWaypoints P m d2 st3 = (ok4, st4)"
    and s5: "checkGeofence P N m (home_position_alt N) (home_global_position_valid N) st4
       = (ok5, st5)"
    and s6: "checkHomePositionAltitude P m (home_position_alt N) (home_alt_valid N) st5
       = (ok6, st6)"
    and s7: "checkTakeoff P N m (home_position_alt N) st6 = (ok7, st7)"
    and s8: "(if vstatus_is_vtol N then checkVTOLLanding P m st7
      else if vstatus_vehicle_type N = VEHICLE_TYPE_FIXED_WING
           then checkFixedWingLanding P N m st7
           else (True, st7\<lparr>has_landing := hasMissionLanding P m\<rparr>)) = (ok8, st8)"
    and s9: "checkTakeoffLandAvailable N st8 = (ok9, st9)"
    and res: "checkMissionFeasible P N m d1 d2 st
       = (ok1 \<and> ok3 \<and> ok4 \<and> ok5 \<and> ok6 \<and> ok7 \<and> ok8 \<and> ok9, st9)"
    by (rule checkMissionFeasible_stages)
  have g0: "summary st True (st\<lparr>warning := False\<rparr>)"
    by (rule summary_same_events) simp
  have "stage (if home_alt_valid N then DistanceToFirstWaypoint else Orchestrator)
          (st\<lparr>warning := False\<rparr>) ok1 st1"
  proof (cases "home_alt_valid N")
    case True
    with s1 show ?thesis by (simp add: checkDistanceToFirstWaypoint_frame)
  next
    case False
    with s1 have "ok1 = False" "st1 = send Mis_no_pos_lock (st\<lparr>warning := False\<rparr>)"
      by simp_all
    with False show ?thesis
      by (simp add: stage_def send_def)
  qed
  from summary_seq [OF g0 this] have g1: "summary st ok1 st1" by simp
  then have g2: "summary st ok1 (st1\<lparr>has_takeoff := False, has_landing := False\<rparr>)"
    by (rule summary_update) simp_all
  note g3 = summary_seq [OF g2 checkMissionItemValidity_frame(2) [OF s3]]
  note g4 = summary_seq [OF g3 checkDistancesBetweenWaypoints_frame(2) [OF s4]]
  note g5 = summary_seq [OF g4 checkGeofence_frame(2) [OF s5]]
  note g6 = summary_seq [OF g5 checkHomePositionAltitude_frame(2) [OF s6]]
  note g7 = summary_seq [OF g6 checkTakeoff_frame(2) [OF s7]]
  have "stage (if vstatus_is_vtol N then VTOLLanding
               else if vstatus_vehicle_type N = VEHICLE_TYPE_FIXED_WING
                    then FixedWingLanding else Orchestrator) st7 ok8 st8"
  proof (cases "vstatus_is_vtol N")
    case True
    with s8 show ?thesis by (simp add: checkVTOLLanding_frame)
  next
    case False
    show ?thesis
    proof (cases "vstatus_vehicle_type N = VEHICLE_TYPE_FIXED_WING")
      case True
      with False s8 show ?thesis by (simp add: checkFixedWingLanding_frame)
    next
      case other: False
      with False s8 have "ok8 = True" "st8 = st7\<lparr>has_landing := hasMissionLanding P m\<rparr>"
        by simp_all
      with False other show ?thesis by (simp add: stage_def)
    qed
  qed
  note g8 = summary_seq [OF g7 this]
  note g9 = summary_seq [OF g8 checkTakeoffLandAvailable_frame(2) [OF s9]]
  from assms res have "r = (ok1 \<and> ok3 \<and> ok4 \<and> ok5 \<and> ok6 \<and> ok7 \<and> ok8 \<and> ok9)" "st' = st9"
    by simp_all
  with g9 show ?thesis by (simp add: conj_assoc)
qed

section \<open>Properties of the orchestrator on an empty mission\<close>

text \<open>Claim C8. On a mission with \<open>count = 0\<close>, for every vehicle state and configuration,
  \<open>checkMissionFeasible\<close> returns false at once: the only effect is the reset of the
  warning flag, and no event is sent.\<close>

theorem check_empty_mission:
  "count m = 0 \<Longrightarrow>
     checkMissionFeasible P N m max_distance_to_1st_waypoint max_distance_between_waypoints st
       = (False, st\<lparr>warning := False\<rparr>)
     \<and> events (snd (checkMissionFeasible P N m max_distance_to_1st_waypoint
                      max_distance_between_waypoints st)) = events st"
  by (simp add: checkMissionFeasible_def)

theorem check_empty_mission_witness:
  "count (example_mission 0) = 0 \<and>
   checkMissionFeasible (example_platform []) example_navigator (example_mission 0)
       (Finite 900) (Finite 900)
       (send Mis_no_pos_lock fresh_checker)
     = (False, (send Mis_no_pos_lock fresh_checker)\<lparr>warning := False\<rparr>) \<and>
   events (snd (checkMissionFeasible (example_platform []) example_navigator (example_mission 0)
                  (Finite 900) (Finite 900) (send Mis_no_pos_lock fresh_checker)))
     = events (send Mis_no_pos_lock fresh_checker)"
  using check_empty_mission [of "example_mission 0" "example_platform []" example_navigator
      "Finite 900" "Finite 900"
      "send Mis_no_pos_lock fresh_checker"]
  by (simp add: example_mission_def)

section \<open>Properties of the geofence check\<close>

text \<open>Claim C4, as stated: with a geofence that is not valid the geofence check passes,
  also when the geofence requires home and home is invalid. The code tests the home
  requirement before it looks at the validity of the geofence, so the check fails there:
  the example has a geofence that is not valid and requires home, and no valid home.\<close>

theorem checkGeofence_home_required_counterexample:
  "\<not> geofence_valid (example_navigator\<lparr>geofence_isHomeRequired := True\<rparr>) \<and>
   checkGeofence (example_platform []) (example_navigator\<lparr>geofence_isHomeRequired := True\<rparr>)
       (example_mission 1) (Finite 488) False fresh_checker
     = (False, send Mis_geofence_no_home fresh_checker)"
  by (simp add: checkGeofence_def example_navigator_def)

text \<open>Claim C4, amended: with a geofence that is not valid no item is read and the check
  passes, unless the geofence requires home and home is invalid; then the check sends
  \<open>Mis_geofence_no_home\<close> and fails.\<close>

theorem checkGeofence_invalid_geofence:
  "\<not> geofence_valid N \<Longrightarrow>
     checkGeofence P N m home_alt home_valid st =
       (if geofence_isHomeRequired N \<and> \<not> home_valid
        then (False, send Mis_geofence_no_home st) else (True, st))"
  by (simp add: checkGeofence_def)

theorem checkGeofence_invalid_geofence_witness:
  "\<not> geofence_valid example_navigator \<and>
   checkGeofence (example_platform []) example_navigator (example_mission 1) (Finite 488) False
       fresh_checker
     = (True, fresh_checker)"
  using checkGeofence_invalid_geofence [of example_navigator "example_platform []"
      "example_mission 1" "Finite 488" False fresh_checker]
  by (simp add: example_navigator_def)

section \<open>Properties of the Euler constructor\<close>

text \<open>Claim C9. When the pitch \<open>asin (- dcm 2 0)\<close> is within \<open>1 / 1000\<close> of \<open>pi / 2\<close>, the
  constructor yields that pitch, roll 0 and the yaw \<open>atan2 (dcm 1 2) (dcm 0 2)\<close>: the second
  of the two assignments to the yaw is the one that stays.\<close>

theorem Euler_of_dcm_gimbal_lock:
  "\<bar>asin (- dcm 2 0) - pi / 2\<bar> < 1 / 1000 \<Longrightarrow>
     theta (Euler_of_dcm asin atan2 dcm) = asin (- dcm 2 0) \<and>
     phi (Euler_of_dcm asin atan2 dcm) = 0 \<and>
     psi (Euler_of_dcm asin atan2 dcm) = atan2 (dcm 1 2) (dcm 0 2)"
  by (simp add: Euler_of_dcm_def Let_def)

theorem Euler_of_dcm_gimbal_lock_witness:
  "\<bar>arcsin (- example_dcm 2 0) - pi / 2\<bar> < 1 / 1000 \<and>
   theta (Euler_of_dcm arcsin atan2_real example_dcm) = pi / 2 \<and>
   phi (Euler_of_dcm arcsin atan2_real example_dcm) = 0 \<and>
   psi (Euler_of_dcm arcsin atan2_real example_dcm) = atan2_real 0 1"
  using Euler_of_dcm_gimbal_lock [of arcsin example_dcm atan2_real]
  by (simp add: example_dcm_def)

section \<open>Properties of the takeoff check\<close>

text \<open>Claim C1 on the code: the mission is a waypoint, an idle item and a takeoff. The first
  takeoff is at index 2 and the waypoint before it is not allowed before a takeoff, yet
  \<open>checkTakeoff\<close> passes and sends nothing: the second loop assigns \<open>takeoff_first\<close> in every
  iteration, so the idle item at index 1 decides.\<close>

theorem checkTakeoff_last_item_decides:
  "checkTakeoff (example_platform waypoint_idle_takeoff) example_navigator (example_mission 3)
      (Finite 488) fresh_checker = (True, fresh_checker\<lparr>has_takeoff := True\<rparr>)"
  by (simp add: checkTakeoff_def checkTakeoff_loop1.simps checkTakeoff_loop2.simps
       example_platform_def waypoint_idle_takeoff_def storage_of_def
       example_mission_def example_item_def example_navigator_def fresh_checker_def float_defs)

text \<open>The steps of the first loop of \<open>checkTakeoff\<close>, one for each way through its body.\<close>

lemma checkTakeoff_loop1_read_failure:
  "i < count m \<Longrightarrow> dm_read P (dataman_id m) i = None \<Longrightarrow>
     checkTakeoff_loop1 P N m home_alt i tf ti st = Inl (False, st)"
  by (subst checkTakeoff_loop1.simps) simp

lemma checkTakeoff_loop1_too_low:
  "i < count m \<Longrightarrow> dm_read P (dataman_id m) i = Some item \<Longrightarrow>
   takeoff_too_low P N home_alt item \<Longrightarrow>
     checkTakeoff_loop1 P N m home_alt i tf ti st =
       Inl (False, send (takeoff_too_low_event P N item) st)"
  by (subst checkTakeoff_loop1.simps) (simp add: takeoff_defs Let_def)

lemma checkTakeoff_loop1_takeoff:
  "i < count m \<Longrightarrow> dm_read P (dataman_id m) i = Some item \<Longrightarrow>
   is_takeoff item \<Longrightarrow> \<not> takeoff_too_low P N home_alt item \<Longrightarrow>
     checkTakeoff_loop1 P N m home_alt i tf ti st =
       checkTakeoff_loop1 P N m home_alt (Suc i) (if i = 0 then True else tf)
         (if i = 0 then ti else if ti = - 1 then int i else ti) (st\<lparr>has_takeoff := True\<rparr>)"
  by (subst checkTakeoff_loop1.simps) (simp add: takeoff_defs Let_def)

lemma checkTakeoff_loop1_other:
  "i < count m \<Longrightarrow> dm_read P (dataman_id m) i = Some item \<Longrightarrow> \<not> is_takeoff item \<Longrightarrow>
     checkTakeoff_loop1 P N m home_alt i tf ti st =
       checkTakeoff_loop1 P N m home_alt (Suc i) tf ti st"
  by (subst checkTakeoff_loop1.simps) (simp add: takeoff_defs)

text \<open>The loop does not run to its end over an item that is too low.\<close>

lemma checkTakeoff_loop1_too_low_Inr:
  assumes k: "k < count m" "dm_read P (dataman_id m) k = Some item"
    and low: "takeoff_too_low P N home_alt item"
  shows "checkTakeoff_loop1 P N m home_alt i tf ti st = Inr x \<Longrightarrow> i \<le> k \<Longrightarrow> False"
proof (induction "count m - i" arbitrary: i st tf ti x)
  case 0
  with k show ?case by simp
next
  case (Suc n)
  note IH = Suc.hyps(1) [rotated]
  show ?case
  proof (cases "i = k")
    case True
    with k low Suc.prems show ?thesis
      by (simp add: checkTakeoff_loop1_too_low)
  next
    case False
    from Suc.prems Suc.hyps(2) False show ?thesis
      by (subst (asm) checkTakeoff_loop1.simps)
         (clarsimp simp: Let_def split: if_split_asm option.split_asm;
          (drule IH, arith, arith, clarsimp))
  qed
qed

text \<open>The loop returns at the first item that is too low when it can read the items before
  it, and sends the event of that item.\<close>

lemma checkTakeoff_loop1_first_too_low:
  assumes k: "k < count m" "dm_read P (dataman_id m) k = Some item"
    and low: "takeoff_too_low P N home_alt item"
    and before: "\<forall>j<k. \<exists>it. dm_read P (dataman_id m) j = Some it \<and>
                    \<not> takeoff_too_low P N home_alt it"
  shows "i \<le> k \<Longrightarrow>
     \<exists>st1. checkTakeoff_loop1 P N m home_alt i tf ti st =
             Inl (False, send (takeoff_too_low_event P N item) st1)
           \<and> events st1 = events st"
proof (induction "k - i" arbitrary: i tf ti st)
  case 0
  then have "i = k" by simp
  with k low show ?case
    by (auto simp: checkTakeoff_loop1_too_low)
next
  case (Suc n)
  then have lt: "i < k" and n: "n = k - Suc i" and le: "Suc i \<le> k" by simp_all
  from before lt obtain it where it: "dm_read P (dataman_id m) i = Some it"
    "\<not> takeoff_too_low P N home_alt it" by blast
  from lt k have ic: "i < count m" by simp
  show ?case
  proof (cases "is_takeoff it")
    case True
    from Suc.hyps(1) [OF n le, of "if i = 0 then True else tf"
        "if i = 0 then ti else if ti = - 1 then int i else ti" "st\<lparr>has_takeoff := True\<rparr>"]
    show ?thesis
      by (simp add: checkTakeoff_loop1_takeoff [OF ic it(1) True it(2)])
  next
    case False
    from Suc.hyps(1) [OF n le, of tf ti st]
    show ?thesis
      by (simp add: checkTakeoff_loop1_other [OF ic it(1) False])
  qed
qed

lemma checkTakeoff_loop1_none_too_low:
  assumes none: "\<forall>j<count m. \<forall>it. dm_read P (dataman_id m) j = Some it \<longrightarrow>
                    \<not> takeoff_too_low P N home_alt it"
  shows "checkTakeoff_loop1 P N m home_alt i tf ti st = Inl (r, st') \<Longrightarrow>
           events st' = events st"
proof (induction "count m - i" arbitrary: i tf ti st)
  case 0
  then show ?case
    by (subst (asm) checkTakeoff_loop1.simps) simp
next
  case (Suc n)
  then have ic: "i < count m" and n: "n = count m - Suc i" by simp_all
  show ?case
  proof (cases "dm_read P (dataman_id m) i")
    case None
    with Suc.prems ic show ?thesis
      by (simp add: checkTakeoff_loop1_read_failure)
  next
    case (Some it)
    with none ic have ok: "\<not> takeoff_too_low P N home_alt it" by blast
    show ?thesis
    proof (cases "is_takeoff it")
      case True
      from Suc.prems have "checkTakeoff_loop1 P N m home_alt (Suc i) (if i = 0 then True else tf)
         (if i = 0 then ti else if ti = - 1 then int i else ti) (st\<lparr>has_takeoff := True\<rparr>)
         = Inl (r, st')"
        by (simp add: checkTakeoff_loop1_takeoff [OF ic Some True ok])
      from Suc.hyps(1) [OF n this] show ?thesis by simp
    next
      case False
      from Suc.prems have "checkTakeoff_loop1 P N m home_alt (Suc i) tf ti st = Inl (r, st')"
        by (simp add: checkTakeoff_loop1_other [OF ic Some False])
      from Suc.hyps(1) [OF n this] show ?thesis .
    qed
  qed
qed

text \<open>Claim C6, as stated: for every takeoff item the takeoff check fails with
  \<open>Mis_takeoff_too_low\<close> carrying the acceptance radius of the item plus one exactly when the
  altitude of the item above home minus one metre is below that acceptance radius. Two
  examples. The first mission has two takeoffs to 10 metres, with acceptance radius 10 and
  20: the second is too low as well, but the loop returns at the first and the one event
  carries 11. The second mission is a takeoff to the absolute altitude \<^verbatim>\<open>3.1f\<close> with
  acceptance radius 2, checked for the home altitude \<^verbatim>\<open>0.1f\<close>: as real numbers the altitude
  above home minus one is below 2, but the single-precision difference of \<^verbatim>\<open>3.1f\<close> and
  \<^verbatim>\<open>0.1f\<close> is 3, and the check passes.\<close>

theorem takeoff_altitude_too_low_counterexample:
  "takeoff_too_low (example_platform two_low_takeoffs) example_navigator (Finite 488)
     ((example_item NAV_CMD_TAKEOFF 0 0 10)\<lparr>acceptance_radius := Finite 20\<rparr>) \<and>
   checkTakeoff (example_platform two_low_takeoffs) example_navigator (example_mission 2)
       (Finite 488) fresh_checker
     = (False, fresh_checker\<lparr>events := [Mis_takeoff_too_low (Finite 11)]\<rparr>) \<and>
   is_binary32 (altitude absolute_takeoff) \<and> is_binary32 (float_round (1 / 10)) \<and>
   is_takeoff absolute_takeoff \<and>
   exact_takeoff_alt_above_home (float_round (1 / 10)) absolute_takeoff - 1
     < valof (effective_acceptance_radius (example_platform [Some absolute_takeoff])
                example_navigator absolute_takeoff) \<and>
   checkTakeoff (example_platform [Some absolute_takeoff]) example_navigator (example_mission 1)
       (float_round (1 / 10)) fresh_checker
     = (True, fresh_checker\<lparr>has_takeoff := True\<rparr>)"
  by (simp add: check_defs loop_simps example_defs vocab_defs float_defs two_low_takeoffs_def
        absolute_takeoff_def Let_def)

text \<open>Claim C6, amended. Altitudes, differences and the comparison are those of single
  precision, as the source computes them: a takeoff item (\<open>TAKEOFF\<close> or \<open>VTOL_TAKEOFF\<close>) is
  too low when its altitude above home (the stored altitude if relative, else the rounded
  difference of the altitude and the home altitude) minus one, rounded, compares less than
  the acceptance radius (that of the item when it compares greater than
  \<open>NAV_EPSILON_POSITION\<close>, the default one otherwise). Whenever some item that can be read is
  too low, \<open>checkTakeoff\<close> fails. When the items before the first such item can be read,
  the one event it sends is \<open>Mis_takeoff_too_low\<close> with the acceptance radius of that first
  item plus one, rounded. When no item that can be read is too low, \<open>checkTakeoff\<close> sends
  nothing or just \<open>Mis_takeoff_not_first\<close>: it never sends \<open>Mis_takeoff_too_low\<close>.\<close>

theorem takeoff_altitude_too_low:
  "(k < count m \<and> dm_read P (dataman_id m) k = Some item \<and>
    takeoff_too_low P N home_alt item \<longrightarrow>
      \<not> fst (checkTakeoff P N m home_alt st)) \<and>
   (k < count m \<and> dm_read P (dataman_id m) k = Some item \<and>
    takeoff_too_low P N home_alt item \<and>
    (\<forall>j<k. \<exists>it. dm_read P (dataman_id m) j = Some it \<and> \<not> takeoff_too_low P N home_alt it) \<longrightarrow>
      (\<exists>st1. checkTakeoff P N m home_alt st =
               (False, send (takeoff_too_low_event P N item) st1)
             \<and> events st1 = events st)) \<and>
   ((\<forall>j<count m. \<forall>it. dm_read P (dataman_id m) j = Some it \<longrightarrow>
        \<not> takeoff_too_low P N home_alt it) \<longrightarrow>
      events (snd (checkTakeoff P N m home_alt st)) = events st \<or>
      events (snd (checkTakeoff P N m home_alt st)) = events st @ [Mis_takeoff_not_first])"
proof (intro conjI impI)
  assume "k < count m \<and> dm_read P (dataman_id m) k = Some item \<and>
    takeoff_too_low P N home_alt item"
  then have k: "k < count m" "dm_read P (dataman_id m) k = Some item"
    and low: "takeoff_too_low P N home_alt item" by simp_all
  show "\<not> fst (checkTakeoff P N m home_alt st)"
  proof (cases "checkTakeoff_loop1 P N m home_alt 0 False (- 1) st")
    case (Inl a)
    obtain r st' where a: "a = (r, st')" by (rule prod.exhaust)
    with Inl checkTakeoff_loop1_Inl [of P N m home_alt 0 False "- 1" st r st']
    show ?thesis by (simp add: checkTakeoff_def)
  next
    case (Inr x)
    from checkTakeoff_loop1_too_low_Inr [OF k low Inr] show ?thesis by simp
  qed
next
  assume a: "k < count m \<and> dm_read P (dataman_id m) k = Some item \<and>
    takeoff_too_low P N home_alt item \<and>
    (\<forall>j<k. \<exists>it. dm_read P (dataman_id m) j = Some it \<and> \<not> takeoff_too_low P N home_alt it)"
  then have "\<exists>st1. checkTakeoff_loop1 P N m home_alt 0 False (- 1) st =
             Inl (False, send (takeoff_too_low_event P N item) st1)
           \<and> events st1 = events st"
    using checkTakeoff_loop1_first_too_low [of k m P item N home_alt 0 False "- 1" st]
    by simp
  then show "\<exists>st1. checkTakeoff P N m home_alt st =
               (False, send (takeoff_too_low_event P N item) st1)
             \<and> events st1 = events st"
    by (auto simp: checkTakeoff_def)
next
  assume none: "\<forall>j<count m. \<forall>it. dm_read P (dataman_id m) j = Some it \<longrightarrow>
        \<not> takeoff_too_low P N home_alt it"
  show "events (snd (checkTakeoff P N m home_alt st)) = events st \<or>
      events (snd (checkTakeoff P N m home_alt st)) = events st @ [Mis_takeoff_not_first]"
  proof (cases "checkTakeoff_loop1 P N m home_alt 0 False (- 1) st")
    case (Inl a)
    obtain r st' where a: "a = (r, st')" by (rule prod.exhaust)
    from checkTakeoff_loop1_none_too_low [OF none] Inl a have "events st' = events st"
      by blast
    with Inl a show ?thesis by (simp add: checkTakeoff_def)
  next
    case (Inr b)
    then obtain tf ti st1 where
      l1: "checkTakeoff_loop1 P N m home_alt 0 False (- 1) st = Inr (tf, ti, st1)"
      by (cases b) auto
    from checkTakeoff_loop1_Inr [OF l1] have e1: "events st1 = events st" by simp
    show ?thesis
    proof (cases "if ti \<noteq> - 1 then checkTakeoff_loop2 P m ti 0 tf st1 else Inr tf")
      case (Inl c)
      obtain r st' where c: "c = (r, st')" by (rule prod.exhaust)
      with Inl have "checkTakeoff_loop2 P m ti 0 tf st1 = Inl (r, st')"
        by (simp split: if_split_asm)
      from checkTakeoff_loop2_Inl [OF this] have "st' = st1" by simp
      with Inl c l1 e1 show ?thesis by (simp add: checkTakeoff_def)
    next
      case (Inr tf')
      with l1 e1 show ?thesis
        by (simp add: checkTakeoff_def send_def)
    qed
  qed
qed

text \<open>The three parts at examples. In the mission of two takeoffs that are too low the second
  one makes the check fail. A takeoff to 10 metres with acceptance radius 10 that comes after
  a waypoint is rejected with the minimum 11. The mission of a waypoint, an idle item and a
  takeoff to 10 metres with acceptance radius 2 has no item that is too low and sends no
  event.\<close>

theorem takeoff_altitude_too_low_witness:
  "takeoff_too_low (example_platform two_low_takeoffs) example_navigator (Finite 488)
     ((example_item NAV_CMD_TAKEOFF 0 0 10)\<lparr>acceptance_radius := Finite 20\<rparr>) \<and>
   \<not> fst (checkTakeoff (example_platform two_low_takeoffs) example_navigator (example_mission 2)
           (Finite 488) fresh_checker) \<and>
   takeoff_too_low (example_platform waypoint_low_takeoff) example_navigator (Finite 488)
     ((example_item NAV_CMD_TAKEOFF 0 0 10)\<lparr>acceptance_radius := Finite 10\<rparr>) \<and>
   \<not> takeoff_too_low (example_platform waypoint_low_takeoff) example_navigator (Finite 488)
       (example_item NAV_CMD_WAYPOINT 0 0 5) \<and>
   checkTakeoff (example_platform waypoint_low_takeoff) example_navigator (example_mission 2)
       (Finite 488) fresh_checker
     = (False, send (Mis_takeoff_too_low (Finite 11)) fresh_checker) \<and>
   events (snd (checkTakeoff (example_platform waypoint_idle_takeoff) example_navigator
       (example_mission 3) (Finite 488) fresh_checker)) = events fresh_checker"
  using takeoff_altitude_too_low [of 1 "example_mission 2" "example_platform two_low_takeoffs"
      "(example_item NAV_CMD_TAKEOFF 0 0 10)\<lparr>acceptance_radius := Finite 20\<rparr>" example_navigator
      "Finite 488" fresh_checker]
    takeoff_altitude_too_low [of 1 "example_mission 2" "example_platform waypoint_low_takeoff"
      "(example_item NAV_CMD_TAKEOFF 0 0 10)\<lparr>acceptance_radius := Finite 10\<rparr>" example_navigator
      "Finite 488" fresh_checker]
    takeoff_altitude_too_low [of 0 "example_mission 3" "example_platform waypoint_idle_takeoff"
      "example_item NAV_CMD_WAYPOINT 0 0 5" example_navigator "Finite 488" fresh_checker]
  by (simp add: check_defs loop_simps example_defs vocab_defs float_defs waypoint_low_takeoff_def
        two_low_takeoffs_def waypoint_idle_takeoff_def Let_def)

section \<open>Properties of the home altitude check and of warnings\<close>

lemma all_items_read_iff:
  "all_items_read P m \<longleftrightarrow> (\<forall>i<count m. dm_read P (dataman_id m) i \<noteq> None)"
  by (auto simp: all_items_read_def list_all_iff)

lemma checkHomePositionAltitude_loop_valid_home:
  assumes "\<forall>j<count m. dm_read P (dataman_id m) j \<noteq> None"
  shows "checkHomePositionAltitude_loop P m home_alt True i st =
     (True, st\<lparr>warning := warning st \<or> filter (below_home P m home_alt) [i..<count m] \<noteq> [],
               events := events st @ map (\<lambda>i. Mis_wp_below_home (word_of_nat (i + 1)))
                 (filter (below_home P m home_alt) [i..<count m])\<rparr>)"
proof (induction "count m - i" arbitrary: i st)
  case 0
  then show ?case
    by (subst checkHomePositionAltitude_loop.simps) simp
next
  case (Suc n)
  then have lt: "i < count m" and n: "n = count m - Suc i" by simp_all
  from assms lt obtain item where item: "dm_read P (dataman_id m) i = Some item"
    by auto
  note IH = Suc.hyps(1) [OF n]
  from lt have upt: "[i..<count m] = i # [Suc i..<count m]"
    by (rule upt_conv_Cons)
  show ?case
    by (subst checkHomePositionAltitude_loop.simps)
       (simp add: lt item IH upt below_home_def wp_alt_def send_def Let_def)
qed

lemma stage_pass_quiet:
  assumes "stage X st True st'" and "X \<noteq> HomePositionAltitude"
  shows "events st' = events st"
proof -
  from assms(1) obtain es where es: "events st' = events st @ es"
    "\<forall>e\<in>set es. sender e = X" "\<forall>e\<in>set es. \<exists>k. e = Mis_wp_below_home k"
    unfolding stage_def by blast
  have "es = []"
  proof (cases es)
    case Nil
    then show ?thesis .
  next
    case (Cons e es')
    with es(2,3) have "sender e = X" and "\<exists>k. e = Mis_wp_below_home k" by simp_all
    with assms(2) show ?thesis by auto
  qed
  with es(1) show ?thesis by simp
qed

lemma pass_quiet:
  assumes "\<And>r st'. f = (r, st') \<Longrightarrow> stage X st r st'" and "X \<noteq> HomePositionAltitude"
  shows "fst f \<longrightarrow> events (snd f) = events st"
proof
  assume "fst f"
  then have "f = (True, snd f)" by (cases f) simp
  from stage_pass_quiet [OF assms(1) [OF this] assms(2)] show "events (snd f) = events st" .
qed

text \<open>Claim C7, as stated: whenever an item with a position has an altitude above mean sea
  level below the home altitude, the home altitude check sends \<open>Mis_wp_below_home\<close> and sets
  the warning flag. The example is a single waypoint whose altitude relative to home is
  \<open>- (1 / 2 ^ 20)\<close>, with the home altitude 488: as real numbers its altitude is below the
  home altitude, but the single-precision sum of the two is 488, and the check sends nothing
  and leaves the warning flag as it is.\<close>

theorem waypoint_just_below_home_counterexample:
  "is_binary32 (altitude waypoint_just_below_home) \<and>
   item_contains_position (example_platform [Some waypoint_just_below_home])
     waypoint_just_below_home \<and>
   exact_wp_alt (Finite 488) waypoint_just_below_home < valof (Finite 488) \<and>
   checkHomePositionAltitude (example_platform [Some waypoint_just_below_home])
       (example_mission 1) (Finite 488) True fresh_checker
     = (True, fresh_checker)"
  by (simp add: check_defs loop_simps example_defs vocab_defs float_defs
        waypoint_just_below_home_def Let_def)

text \<open>Claim C7, amended. The altitude of an item above mean sea level is the one the source
  computes, for a relative altitude the sum with the home altitude rounded to single
  precision, and it is below the home altitude when the home altitude compares greater. With
  a valid home altitude and a mission whose items can all be read, the home altitude check
  passes; for every item that has a position and whose altitude is below the home altitude it
  sends \<open>Mis_wp_below_home\<close> with the index plus one, in the order of the items and nothing
  else, and it sets the warning flag when there is such an item. Moreover
  \<open>Mis_wp_below_home\<close> is the only event that does not make the mission infeasible: when
  \<open>checkMissionFeasible\<close> returns true, every event it has sent is a \<open>Mis_wp_below_home\<close>,
  and each of the other sub-checks, when it passes, has sent no event at all.\<close>

theorem waypoint_below_home_is_the_only_warning:
  "(all_items_read P m \<longrightarrow>
      checkHomePositionAltitude P m home_alt True st =
        (True, st\<lparr>warning := warning st \<or> wp_below_home_events P m home_alt \<noteq> [],
                  events := events st @ wp_below_home_events P m home_alt\<rparr>)) \<and>
   (fst (checkMissionFeasible P N m d1 d2 st) \<longrightarrow>
      (\<exists>es. events (snd (checkMissionFeasible P N m d1 d2 st)) = events st @ es \<and>
            (\<forall>e\<in>set es. \<exists>k. e = Mis_wp_below_home k))) \<and>
   (fst (checkDistanceToFirstWaypoint P N m d1 st) \<longrightarrow>
      events (snd (checkDistanceToFirstWaypoint P N m d1 st)) = events st) \<and>
   (fst (checkMissionItemValidity P N m st) \<longrightarrow>
      events (snd (checkMissionItemValidity P N m st)) = events st) \<and>
   (fst (checkDistancesBetweenWaypoints P m d2 st) \<longrightarrow>
      events (snd (checkDistancesBetweenWaypoints P m d2 st)) = events st) \<and>
   (fst (checkGeofence P N m home_alt home_valid st) \<longrightarrow>
      events (snd (checkGeofence P N m home_alt home_valid st)) = events st) \<and>
   (fst (checkTakeoff P N m home_alt st) \<longrightarrow>
      events (snd (checkTakeoff P N m home_alt st)) = events st) \<and>
   (fst (checkFixedWingLanding P N m st) \<longrightarrow>
      events (snd (checkFixedWingLanding P N m st)) = events st) \<and>
   (fst (checkVTOLLanding P m st) \<longrightarrow>
      events (snd (checkVTOLLanding P m st)) = events st) \<and>
   (fst (checkTakeoffLandAvailable N st) \<longrightarrow>
      events (snd (checkTakeoffLandAvailable N st)) = events st)"
proof (intro conjI)
  show "all_items_read P m \<longrightarrow>
      checkHomePositionAltitude P m home_alt True st =
        (True, st\<lparr>warning := warning st \<or> wp_below_home_events P m home_alt \<noteq> [],
                  events := events st @ wp_below_home_events P m home_alt\<rparr>)"
  proof
    assume "all_items_read P m"
    then have "\<forall>j<count m. dm_read P (dataman_id m) j \<noteq> None"
      by (simp add: all_items_read_iff)
    from checkHomePositionAltitude_loop_valid_home [OF this, of home_alt 0 st]
    show "checkHomePositionAltitude P m home_alt True st =
        (True, st\<lparr>warning := warning st \<or> wp_below_home_events P m home_alt \<noteq> [],
                  events := events st @ wp_below_home_events P m home_alt\<rparr>)"
      by (simp add: checkHomePositionAltitude_def wp_below_home_events_def)
  qed
  show "fst (checkMissionFeasible P N m d1 d2 st) \<longrightarrow>
      (\<exists>es. events (snd (checkMissionFeasible P N m d1 d2 st)) = events st @ es \<and>
            (\<forall>e\<in>set es. \<exists>k. e = Mis_wp_below_home k))"
  proof
    assume ok: "fst (checkMissionFeasible P N m d1 d2 st)"
    obtain r st' where res: "checkMissionFeasible P N m d1 d2 st = (r, st')"
      by (rule prod.exhaust)
    from checkMissionFeasible_summary [OF res] ok res
    show "\<exists>es. events (snd (checkMissionFeasible P N m d1 d2 st)) = events st @ es \<and>
            (\<forall>e\<in>set es. \<exists>k. e = Mis_wp_below_home k)"
      by (auto simp: summary_def)
  qed
  show "fst (checkDistanceToFirstWaypoint P N m d1 st) \<longrightarrow>
      events (snd (checkDistanceToFirstWaypoint P N m d1 st)) = events st"
    by (rule pass_quiet [OF checkDistanceToFirstWaypoint_frame]) simp_all
  show "fst (checkMissionItemValidity P N m st) \<longrightarrow>
      events (snd (checkMissionItemValidity P N m st)) = events st"
    by (rule pass_quiet [OF checkMissionItemValidity_frame(2)]) simp_all
  show "fst (checkDistancesBetweenWaypoints P m d2 st) \<longrightarrow>
      events (snd (checkDistancesBetweenWaypoints P m d2 st)) = events st"
    by (rule pass_quiet [OF checkDistancesBetweenWaypoints_frame(2)]) simp_all
  show "fst (checkGeofence P N m home_alt home_valid st) \<longrightarrow>
      events (snd (checkGeofence P N m home_alt home_valid st)) = events st"
    by (rule pass_quiet [OF checkGeofence_frame(2)]) simp_all
  show "fst (checkTakeoff P N m home_alt st) \<longrightarrow>
      events (snd (checkTakeoff P N m home_alt st)) = events st"
    by (rule pass_quiet [OF checkTakeoff_frame(2)]) simp_all
  show "fst (checkFixedWingLanding P N m st) \<longrightarrow>
      events (snd (checkFixedWingLanding P N m st)) = events st"
    by (rule pass_quiet [OF checkFixedWingLanding_frame]) simp_all
  show "fst (checkVTOLLanding P m st) \<longrightarrow>
      events (snd (checkVTOLLanding P m st)) = events st"
    by (rule pass_quiet [OF checkVTOLLanding_frame]) simp_all
  show "fst (checkTakeoffLandAvailable N st) \<longrightarrow>
      events (snd (checkTakeoffLandAvailable N st)) = events st"
    by (rule pass_quiet [OF checkTakeoffLandAvailable_frame(2)]) simp_all
qed

text \<open>The example is a takeoff, a waypoint five metres below home and a landing: the mission is
  feasible, the warning flag is set and the one event is \<open>Mis_wp_below_home 2\<close>.\<close>

theorem waypoint_below_home_is_the_only_warning_witness:
  "all_items_read (example_platform takeoff_low_waypoint_land) (example_mission 3) \<and>
   checkHomePositionAltitude (example_platform takeoff_low_waypoint_land) (example_mission 3)
       (Finite 488) True fresh_checker
     = (True, fresh_checker\<lparr>warning := True, events := [Mis_wp_below_home 2]\<rparr>) \<and>
   checkMissionFeasible (example_platform takeoff_low_waypoint_land) example_navigator
       (example_mission 3) (Finite 900) (Finite 900) fresh_checker
     = (True, \<lparr>warning = True, has_takeoff = True, has_landing = True,
               events = [Mis_wp_below_home 2]\<rparr>)"
  using waypoint_below_home_is_the_only_warning [of "example_platform takeoff_low_waypoint_land"
      "example_mission 3" "Finite 488" fresh_checker example_navigator "Finite 900" "Finite 900"]
  by (simp add: check_defs loop_simps example_defs vocab_defs float_defs
        takeoff_low_waypoint_land_def Let_def upt_rec)

section \<open>Properties of the distance checks\<close>

text \<open>Claim C10. Whenever one of \<open>Mis_first_wp_too_far\<close>, \<open>Mis_wp_dist_too_far\<close> and
  \<open>Mis_wp_gate_too_close\<close> is sent, by the first-waypoint check, by the check of the distances
  between waypoints or in a run of \<open>checkMissionFeasible\<close>, the routine returns failure and
  the warning flag of the resulting state is set. So a set warning flag does not tell that the
  mission is feasible.\<close>

theorem distance_failure_sets_warning:
  "(checkDistanceToFirstWaypoint P N m d1 st = (r1, st1) \<longrightarrow>
      (\<exists>es. events st1 = events st @ es \<and>
            (\<forall>e\<in>set es. distance_fatal e \<longrightarrow> \<not> r1 \<and> warning st1))) \<and>
   (checkDistancesBetweenWaypoints P m d2 st = (r2, st2) \<longrightarrow>
      (\<exists>es. events st2 = events st @ es \<and>
            (\<forall>e\<in>set es. distance_fatal e \<longrightarrow> \<not> r2 \<and> warning st2))) \<and>
   (checkMissionFeasible P N m d1 d2 st = (r, st') \<longrightarrow>
      (\<exists>es. events st' = events st @ es \<and>
            (\<forall>e\<in>set es. distance_fatal e \<longrightarrow> \<not> r \<and> warning st')))"
proof (intro conjI impI)
  assume "checkDistanceToFirstWaypoint P N m d1 st = (r1, st1)"
  from checkDistanceToFirstWaypoint_frame [OF this]
  show "\<exists>es. events st1 = events st @ es \<and>
            (\<forall>e\<in>set es. distance_fatal e \<longrightarrow> \<not> r1 \<and> warning st1)"
    unfolding stage_def by blast
next
  assume "checkDistancesBetweenWaypoints P m d2 st = (r2, st2)"
  from checkDistancesBetweenWaypoints_frame(2) [OF this]
  show "\<exists>es. events st2 = events st @ es \<and>
            (\<forall>e\<in>set es. distance_fatal e \<longrightarrow> \<not> r2 \<and> warning st2)"
    unfolding stage_def by blast
next
  assume "checkMissionFeasible P N m d1 d2 st = (r, st')"
  from checkMissionFeasible_summary [OF this]
  show "\<exists>es. events st' = events st @ es \<and>
            (\<forall>e\<in>set es. distance_fatal e \<longrightarrow> \<not> r \<and> warning st')"
    unfolding summary_def by blast
qed

text \<open>The example is a single waypoint at distance 1000 with the maximum 900: the
  first-waypoint check and the whole check fail, and the warning flag is set. So it is after
  the check of two waypoints at distance 1000 from each other.\<close>

theorem distance_failure_sets_warning_witness:
  "checkDistanceToFirstWaypoint (example_platform far_waypoint) example_navigator
       (example_mission 1) (Finite 900) fresh_checker
     = (False, fresh_checker\<lparr>warning := True, events := [Mis_first_wp_too_far 1000 900]\<rparr>) \<and>
   checkDistancesBetweenWaypoints (example_platform distant_waypoints) (example_mission 2)
       (Finite 900)
       fresh_checker
     = (False, fresh_checker\<lparr>warning := True, events := [Mis_wp_dist_too_far 1000 900]\<rparr>) \<and>
   checkMissionFeasible (example_platform far_waypoint) example_navigator
       (example_mission 1) (Finite 900) (Finite 900) fresh_checker
     = (False, \<lparr>warning = True, has_takeoff = False, has_landing = False,
                events = [Mis_first_wp_too_far 1000 900]\<rparr>)"
  using distance_failure_sets_warning [of "example_platform far_waypoint" example_navigator
      "example_mission 1" "Finite 900" fresh_checker False
      "fresh_checker\<lparr>warning := True, events := [Mis_first_wp_too_far 1000 900]\<rparr>"
      "Finite 900" True fresh_checker False
      "\<lparr>warning = True, has_takeoff = False, has_landing = False,
        events = [Mis_first_wp_too_far 1000 900]\<rparr>"]
    distance_failure_sets_warning [of "example_platform distant_waypoints" example_navigator
      "example_mission 2" "Finite 900" fresh_checker True fresh_checker "Finite 900" False
      "fresh_checker\<lparr>warning := True, events := [Mis_wp_dist_too_far 1000 900]\<rparr>"]
  by (simp add: check_defs loop_simps example_defs float_defs far_waypoint_def
        distant_waypoints_def Let_def)

section \<open>Properties of failed storage reads\<close>














section \<open>Properties of the landing flag\<close>

lemma hasMissionLanding_loop_found:
  assumes reads: "\<forall>j<count m. dm_read P (dataman_id m) j \<noteq> None"
  shows "hasMissionLanding_loop P m i found =
           (found \<or> list_ex (cmd_at P m [NAV_CMD_LAND]) [i..<count m])"
proof (induction "count m - i" arbitrary: i found)
  case 0
  then show ?case
    by (subst hasMissionLanding_loop.simps) simp
next
  case (Suc n)
  then have ic: "i < count m" and n: "n = count m - Suc i" by simp_all
  from reads ic obtain item where item: "dm_read P (dataman_id m) i = Some item" by auto
  from ic have upt: "[i..<count m] = i # [Suc i..<count m]" by (rule upt_conv_Cons)
  show ?case
    by (subst hasMissionLanding_loop.simps)
       (auto simp: ic item upt cmd_at_def Suc.hyps(1) [OF n])
qed

lemma checkVTOLLanding_loop_has_landing_Inl:
  assumes reads: "\<forall>j<count m. dm_read P (dataman_id m) j \<noteq> None"
  shows "checkVTOLLanding_loop P m i dlsi lai st = Inl (r, st') \<Longrightarrow>
     has_landing st' =
       (has_landing st \<or>
        list_ex (cmd_at P m [NAV_CMD_LAND, NAV_CMD_VTOL_LAND, NAV_CMD_DO_LAND_START])
          [i..<count m])"
proof (induction "count m - i" arbitrary: i st dlsi lai)
  case 0
  then show ?case
    by (subst (asm) checkVTOLLanding_loop.simps) simp
next
  case (Suc n)
  note IH = Suc.hyps(1) [rotated]
  from Suc.hyps(2) have ic: "i < count m" by simp
  with reads have r1: "dm_read P (dataman_id m) i \<noteq> None"
    and r2: "dm_read P (dataman_id m) (i - Suc 0) \<noteq> None" by simp_all
  from Suc.prems Suc.hyps(2) r1 r2 show ?case
    by (subst (asm) checkVTOLLanding_loop.simps)
       (clarsimp simp: send_def Let_def upt_conv_Cons cmd_at_def
          split: if_split_asm option.split_asm;
        (drule IH, arith, clarsimp simp: cmd_at_def))
qed

lemma checkVTOLLanding_loop_has_landing_Inr:
  assumes reads: "\<forall>j<count m. dm_read P (dataman_id m) j \<noteq> None"
  shows "checkVTOLLanding_loop P m i dlsi lai st = Inr (dlsi', lai', st') \<Longrightarrow>
     has_landing st' =
       (has_landing st \<or>
        list_ex (cmd_at P m [NAV_CMD_LAND, NAV_CMD_VTOL_LAND, NAV_CMD_DO_LAND_START])
          [i..<count m])"
proof (induction "count m - i" arbitrary: i st dlsi lai)
  case 0
  then show ?case
    by (subst (asm) checkVTOLLanding_loop.simps) clarsimp
next
  case (Suc n)
  note IH = Suc.hyps(1) [rotated]
  from Suc.hyps(2) have ic: "i < count m" by simp
  with reads have r1: "dm_read P (dataman_id m) i \<noteq> None"
    and r2: "dm_read P (dataman_id m) (i - Suc 0) \<noteq> None" by simp_all
  from Suc.prems Suc.hyps(2) r1 r2 show ?case
    by (subst (asm) checkVTOLLanding_loop.simps)
       (clarsimp simp: send_def Let_def upt_conv_Cons cmd_at_def
          split: if_split_asm option.split_asm;
        (drule IH, arith, clarsimp simp: cmd_at_def))
qed

lemma checkFixedWingLanding_loop_has_landing_Inl:
  assumes reads: "\<forall>j<count m. dm_read P (dataman_id m) j \<noteq> None"
  shows "checkFixedWingLanding_loop P N m i lv dlsi lai st = Inl (r, st') \<Longrightarrow>
     has_landing st' =
       (has_landing st \<or>
        list_ex (cmd_at P m [NAV_CMD_LAND, NAV_CMD_DO_LAND_START]) [i..<count m])"
proof (induction "count m - i" arbitrary: i st lv dlsi lai)
  case 0
  then show ?case
    by (subst (asm) checkFixedWingLanding_loop.simps) simp
next
  case (Suc n)
  note IH = Suc.hyps(1) [rotated]
  from Suc.hyps(2) have ic: "i < count m" by simp
  with reads have r1: "dm_read P (dataman_id m) i \<noteq> None"
    and r2: "dm_read P (dataman_id m) (i - Suc 0) \<noteq> None" by simp_all
  from Suc.prems Suc.hyps(2) r1 r2 show ?case
    by (subst (asm) checkFixedWingLanding_loop.simps)
       (clarsimp simp: send_def Let_def upt_conv_Cons cmd_at_def
          split: if_split_asm option.split_asm sum.split_asm;
        (drule IH, arith, clarsimp simp: cmd_at_def))
qed

lemma checkFixedWingLanding_loop_has_landing_Inr:
  assumes reads: "\<forall>j<count m. dm_read P (dataman_id m) j \<noteq> None"
  shows "checkFixedWingLanding_loop P N m i lv dlsi lai st = Inr (lv', dlsi', lai', st') \<Longrightarrow>
     has_landing st' =
       (has_landing st \<or>
        list_ex (cmd_at P m [NAV_CMD_LAND, NAV_CMD_DO_LAND_START]) [i..<count m])"
proof (induction "count m - i" arbitrary: i st lv dlsi lai)
  case 0
  then show ?case
    by (subst (asm) checkFixedWingLanding_loop.simps) clarsimp
next
  case (Suc n)
  note IH = Suc.hyps(1) [rotated]
  from Suc.hyps(2) have ic: "i < count m" by simp
  with reads have r1: "dm_read P (dataman_id m) i \<noteq> None"
    and r2: "dm_read P (dataman_id m) (i - Suc 0) \<noteq> None" by simp_all
  from Suc.prems Suc.hyps(2) r1 r2 show ?case
    by (subst (asm) checkFixedWingLanding_loop.simps)
       (clarsimp simp: send_def Let_def upt_conv_Cons cmd_at_def
          split: if_split_asm option.split_asm sum.split_asm;
        (drule IH, arith, clarsimp simp: cmd_at_def))
qed

text \<open>Claim C2, as stated: after \<open>checkMissionFeasible\<close>, for every vehicle type, \<open>has_landing\<close>
  is false exactly when the mission has no \<open>LAND\<close>, no \<open>VTOL_LAND\<close> and no \<open>DO_LAND_START\<close>.
  The example is a multicopter with a takeoff, a waypoint and a VTOL landing: the mission has
  a \<open>VTOL_LAND\<close> and \<open>has_landing\<close> is false, since for a vehicle that is neither VTOL nor
  fixed-wing only \<open>LAND\<close> items count.\<close>

theorem has_landing_multicopter_counterexample:
  "mission_has_cmd (example_platform takeoff_waypoint_vtol_land) (example_mission 3)
     [NAV_CMD_LAND, NAV_CMD_VTOL_LAND, NAV_CMD_DO_LAND_START] \<and>
   \<not> has_landing (snd (checkMissionFeasible (example_platform takeoff_waypoint_vtol_land)
        example_navigator (example_mission 3) (Finite 900) (Finite 900) fresh_checker))"
  by (simp add: check_defs loop_simps example_defs vocab_defs float_defs
        takeoff_waypoint_vtol_land_def Let_def upt_rec)

text \<open>Claim C2, amended. After \<open>checkMissionFeasible\<close> on a mission that is not empty and
  whose items can all be read, \<open>has_landing\<close> is true exactly when the mission has an item
  with one of the commands that the landing check of the vehicle looks for: \<open>LAND\<close>,
  \<open>VTOL_LAND\<close> or \<open>DO_LAND_START\<close> for a VTOL vehicle, \<open>LAND\<close> or \<open>DO_LAND_START\<close> for a
  fixed-wing vehicle, and \<open>LAND\<close> alone for every other vehicle.\<close>

theorem has_landing_after_check:
  assumes "0 < count m" and "all_items_read P m"
  shows "has_landing (snd (checkMissionFeasible P N m d1 d2 st)) =
     mission_has_cmd P m
       (if vstatus_is_vtol N then [NAV_CMD_LAND, NAV_CMD_VTOL_LAND, NAV_CMD_DO_LAND_START]
        else if vstatus_vehicle_type N = VEHICLE_TYPE_FIXED_WING
             then [NAV_CMD_LAND, NAV_CMD_DO_LAND_START]
             else [NAV_CMD_LAND])"
proof -
  from assms(2) have reads: "\<forall>j<count m. dm_read P (dataman_id m) j \<noteq> None"
    by (simp add: all_items_read_iff)
  from assms(1) obtain ok1 st1 ok3 st3 ok4 st4 ok5 st5 ok6 st6 ok7 st7 ok8 st8 ok9 st9 where
    s3: "checkMissionItemValidity P N m (st1\<lparr>has_takeoff := False, has_landing := False\<rparr>)
       = (ok3, st3)"
    and s4: "checkDistancesBetweenWaypoints P m d2 st3 = (ok4, st4)"
    and s5: "checkGeofence P N m (home_position_alt N) (home_global_position_valid N) st4
       = (ok5, st5)"
    and s6: "checkHomePositionAltitude P m (home_position_alt N) (home_alt_valid N) st5
       = (ok6, st6)"
    and s7: "checkTakeoff P N m (home_position_alt N) st6 = (ok7, st7)"
    and s8: "(if vstatus_is_vtol N then checkVTOLLanding P m st7
      else if vstatus_vehicle_type N = VEHICLE_TYPE_FIXED_WING
           then checkFixedWingLanding P N m st7
           else (True, st7\<lparr>has_landing := hasMissionLanding P m\<rparr>)) = (ok8, st8)"
    and s9: "checkTakeoffLandAvailable N st8 = (ok9, st9)"
    and res: "checkMissionFeasible P N m d1 d2 st
       = (ok1 \<and> ok3 \<and> ok4 \<and> ok5 \<and> ok6 \<and> ok7 \<and> ok8 \<and> ok9, st9)"
    by (rule checkMissionFeasible_stages [of m N st P d1 d2])
  have h7: "\<not> has_landing st7"
    using checkMissionItemValidity_frame(1) [OF s3] checkDistancesBetweenWaypoints_frame(1) [OF s4]
      checkGeofence_frame(1) [OF s5] checkHomePositionAltitude_frame(1) [OF s6]
      checkTakeoff_frame(1) [OF s7]
    by simp
  have h8: "has_landing st8 =
     mission_has_cmd P m
       (if vstatus_is_vtol N then [NAV_CMD_LAND, NAV_CMD_VTOL_LAND, NAV_CMD_DO_LAND_START]
        else if vstatus_vehicle_type N = VEHICLE_TYPE_FIXED_WING
             then [NAV_CMD_LAND, NAV_CMD_DO_LAND_START]
             else [NAV_CMD_LAND])"
  proof (cases "vstatus_is_vtol N")
    case True
    with s8 have c: "checkVTOLLanding P m st7 = (ok8, st8)" by simp
    show ?thesis
    proof (cases "checkVTOLLanding_loop P m 0 0 0 st7")
      case (Inl a)
      with c have "checkVTOLLanding_loop P m 0 0 0 st7 = Inl (ok8, st8)"
        by (simp add: checkVTOLLanding_def)
      from checkVTOLLanding_loop_has_landing_Inl [OF reads this] h7 True
      show ?thesis by (simp add: mission_has_cmd_def)
    next
      case (Inr b)
      then obtain d l st' where
        l: "checkVTOLLanding_loop P m 0 0 0 st7 = Inr (d, l, st')" by (cases b) auto
      with c have "has_landing st8 = has_landing st'"
        by (auto simp: checkVTOLLanding_def send_def split: if_split_asm)
      with checkVTOLLanding_loop_has_landing_Inr [OF reads l] h7 True
      show ?thesis by (simp add: mission_has_cmd_def)
    qed
  next
    case False
    show ?thesis
    proof (cases "vstatus_vehicle_type N = VEHICLE_TYPE_FIXED_WING")
      case True
      with False s8 have c: "checkFixedWingLanding P N m st7 = (ok8, st8)" by simp
      show ?thesis
      proof (cases "checkFixedWingLanding_loop P N m 0 False 0 0 st7")
        case (Inl a)
        with c have "checkFixedWingLanding_loop P N m 0 False 0 0 st7 = Inl (ok8, st8)"
          by (simp add: checkFixedWingLanding_def)
        from checkFixedWingLanding_loop_has_landing_Inl [OF reads this] h7 True False
        show ?thesis by (simp add: mission_has_cmd_def)
      next
        case (Inr b)
        then obtain lv d l st' where
          l: "checkFixedWingLanding_loop P N m 0 False 0 0 st7 = Inr (lv, d, l, st')"
          by (cases b) auto
        with c have "has_landing st8 = has_landing st'"
          by (auto simp: checkFixedWingLanding_def send_def split: if_split_asm)
        with checkFixedWingLanding_loop_has_landing_Inr [OF reads l] h7 True False
        show ?thesis by (simp add: mission_has_cmd_def)
      qed
    next
      case other: False
      with False s8 have "st8 = st7\<lparr>has_landing := hasMissionLanding P m\<rparr>" by simp
      with False other show ?thesis
        by (simp add: hasMissionLanding_def hasMissionLanding_loop_found [OF reads]
              mission_has_cmd_def)
    qed
  qed
  from checkTakeoffLandAvailable_frame(1) [OF s9] h8 res show ?thesis by simp
qed

text \<open>The example is a multicopter with a takeoff, a waypoint and a landing.\<close>

theorem has_landing_after_check_witness:
  "0 < count (example_mission 3) \<and>
   all_items_read (example_platform takeoff_low_waypoint_land) (example_mission 3) \<and>
   has_landing (snd (checkMissionFeasible (example_platform takeoff_low_waypoint_land)
        example_navigator (example_mission 3) (Finite 900) (Finite 900) fresh_checker)) \<and>
   mission_has_cmd (example_platform takeoff_low_waypoint_land) (example_mission 3) [NAV_CMD_LAND]"
  using has_landing_after_check [of "example_mission 3"
      "example_platform takeoff_low_waypoint_land" example_navigator "Finite 900" "Finite 900"
      fresh_checker]
  by (simp add: example_defs vocab_defs takeoff_low_waypoint_land_def upt_rec)

section \<open>Properties of the fixed-wing landing check\<close>











end
